theory Spec2Isabelle
  imports Complex_Main "HOL-Library.List_Lexorder" "HOL-Library.Product_Lexorder"
    "HOL-Library.Multiset"
begin

section \<open>Strings and the Python library\<close>

text \<open>
  A Python \<open>str\<close> is a sequence of Unicode code points; it is modelled as a list of
  natural numbers. ASCII literals are written through \<open>u\<close>; other literals are
  written as code points (the keywords of the source are Chinese words).
\<close>

type_synonym ustr = "nat list"

definition u :: "string \<Rightarrow> ustr" where
  "u s = map of_char s"

text \<open>
  What the source takes from Python's built-in library and the Unicode database is a
  parameter of the model: \<open>str.lower\<close>, the character classes of \<open>re\<close> and
  \<open>str.isspace\<close>, the value of a decimal digit (for \<open>int()\<close>), the limit
  \<open>sys.get_int_max_str_digits()\<close> on the number of digits that \<open>int()\<close> converts
  (\<open>0\<close> for no limit), and the composition
  \<open>datetime.fromisoformat(s).strftime('%m-%d %H:%M')\<close>, which is \<open>None\<close> where
  \<open>fromisoformat\<close> raises ValueError.

  A \<open>float\<close> is a double; a finite double is represented by the rational number that
  is its value, so the comparison of floats is the comparison of these numbers. The
  arithmetic of floats rounds and is a parameter as well: \<open>float_add\<close>, \<open>float_mul\<close>
  and \<open>float_div\<close> are \<open>+\<close>, \<open>*\<close> and \<open>/\<close> on two floats, \<open>int_truediv\<close> is \<open>/\<close>
  on two integers, \<open>float_of_int\<close> is the conversion that an integer operand of a
  float operation undergoes.
\<close>

record pylib =
  str_lower :: "ustr \<Rightarrow> ustr"
  is_space :: "nat \<Rightarrow> bool"
  is_word :: "nat \<Rightarrow> bool"
  is_digit :: "nat \<Rightarrow> bool"
  digit_value :: "nat \<Rightarrow> nat"
  max_str_digits :: nat
  iso_to_mdhm :: "ustr \<Rightarrow> ustr option"
  float_add :: "rat \<Rightarrow> rat \<Rightarrow> rat"
  float_mul :: "rat \<Rightarrow> rat \<Rightarrow> rat"
  float_div :: "rat \<Rightarrow> rat \<Rightarrow> rat"
  int_truediv :: "int \<Rightarrow> int \<Rightarrow> rat"
  float_of_int :: "int \<Rightarrow> rat"

text \<open>\<open>k in s\<close> on strings: \<open>k\<close> occurs in \<open>s\<close> as a contiguous substring.\<close>

fun starts_with :: "ustr \<Rightarrow> ustr \<Rightarrow> bool" where
  "starts_with [] s = True"
| "starts_with (k # ks) [] = False"
| "starts_with (k # ks) (c # cs) = (k = c \<and> starts_with ks cs)"

fun py_in :: "ustr \<Rightarrow> ustr \<Rightarrow> bool" where
  "py_in k [] = (k = [])"
| "py_in k (c # cs) = (starts_with k (c # cs) \<or> py_in k cs)"

text \<open>\<open>any(keyword in s for keyword in keywords)\<close>\<close>

definition any_in :: "ustr list \<Rightarrow> ustr \<Rightarrow> bool" where
  "any_in keywords s = list_ex (\<lambda>keyword. py_in keyword s) keywords"

text \<open>
  A \<open>dict\<close> is the list of its items in insertion order. \<open>dict_set\<close> is
  \<open>d[k] = v\<close>, \<open>dict_update\<close> is \<open>d.update(e)\<close>, \<open>dict_get\<close> is the lookup.
\<close>

fun dict_set :: "'k \<Rightarrow> 'v \<Rightarrow> ('k \<times> 'v) list \<Rightarrow> ('k \<times> 'v) list" where
  "dict_set k v [] = [(k, v)]"
| "dict_set k v ((k', v') # d) = (if k = k' then (k, v) # d else (k', v') # dict_set k v d)"

definition dict_update :: "('k \<times> 'v) list \<Rightarrow> ('k \<times> 'v) list \<Rightarrow> ('k \<times> 'v) list" where
  "dict_update d e = foldl (\<lambda>acc (k, v). dict_set k v acc) d e"

definition dict_get :: "('k \<times> 'v) list \<Rightarrow> 'k \<Rightarrow> 'v option" where
  "dict_get d k = map_of d k"

section \<open>Regular expressions\<close>

text \<open>
  The patterns of the source use literals, character classes (\<open>\d\<close>, \<open>\w\<close>,
  \<open>\s\<close>, \<open>.\<close>, listed characters), greedy repetition of a single character class,
  sequence, alternation and capturing groups. \<open>rmatch\<close> is the backtracking matcher of
  \<open>re\<close> on that fragment: it lists every way the pattern matches a prefix of the input,
  in the order in which \<open>re\<close> tries them, each with the rest of the input and the
  texts of the groups. The first element is the match that \<open>re\<close> reports.
\<close>

datatype cls = CDigit | CWord | CSpace | CDot | CChr nat

fun in_cls :: "pylib \<Rightarrow> cls \<Rightarrow> nat \<Rightarrow> bool" where
  "in_cls L CDigit c = is_digit L c"
| "in_cls L CWord c = is_word L c"
| "in_cls L CSpace c = is_space L c"
| "in_cls L CDot c = (c \<noteq> 0x0A)"
| "in_cls L (CChr k) c = (c = k)"

definition in_set :: "pylib \<Rightarrow> cls list \<Rightarrow> nat \<Rightarrow> bool" where
  "in_set L cs c = list_ex (\<lambda>k. in_cls L k c) cs"

datatype regex =
    Lit ustr
  | Set "cls list"
  | Rep "cls list" nat "nat option"
  | Seq regex regex
  | Alt regex regex
  | Grp regex

fun rmatch :: "pylib \<Rightarrow> regex \<Rightarrow> ustr \<Rightarrow> (ustr \<times> ustr list) list" where
  "rmatch L (Lit k) s = (if starts_with k s then [(drop (length k) s, [])] else [])"
| "rmatch L (Set cs) s =
     (case s of [] \<Rightarrow> [] | c # r \<Rightarrow> if in_set L cs c then [(r, [])] else [])"
| "rmatch L (Rep cs lo hi) s =
     (let avail = length (takeWhile (in_set L cs) s);
          top = (case hi of None \<Rightarrow> avail | Some h \<Rightarrow> min h avail)
      in map (\<lambda>n. (drop n s, [])) (rev [lo ..< Suc top]))"
| "rmatch L (Seq p q) s =
     concat (map (\<lambda>(r, g). map (\<lambda>(r', g'). (r', g @ g')) (rmatch L q r)) (rmatch L p s))"
| "rmatch L (Alt p q) s = rmatch L p s @ rmatch L q s"
| "rmatch L (Grp p) s =
     map (\<lambda>(r, g). (r, take (length s - length r) s # g)) (rmatch L p s)"

text \<open>
  An element of the list \<open>re.findall\<close> returns: the whole match when the pattern has no
  group, the group's text when it has one, the tuple of the groups' texts when it has
  several.
\<close>

datatype sval = Str ustr | Tup "ustr list"

definition findall_item :: "ustr \<Rightarrow> ustr list \<Rightarrow> sval" where
  "findall_item whole groups =
     (case groups of [] \<Rightarrow> Str whole | [g] \<Rightarrow> Str g | _ \<Rightarrow> Tup groups)"

text \<open>
  \<open>findall_from L p skip s\<close> scans \<open>s\<close> from left to right; \<open>skip\<close> counts the
  characters still covered by the previous match, so that matches do not overlap.
  No pattern of the source matches the empty string.
\<close>

fun findall_from :: "pylib \<Rightarrow> regex \<Rightarrow> nat \<Rightarrow> ustr \<Rightarrow> sval list" where
  "findall_from L p skip [] =
     (if skip = 0 then
        (case rmatch L p [] of [] \<Rightarrow> [] | (r, g) # _ \<Rightarrow> [findall_item [] g])
      else [])"
| "findall_from L p skip (c # cs) =
     (if 0 < skip then findall_from L p (skip - 1) cs
      else
        (case rmatch L p (c # cs) of
           [] \<Rightarrow> findall_from L p 0 cs
         | (r, g) # _ \<Rightarrow>
             (let n = length (c # cs) - length r
              in findall_item (take n (c # cs)) g # findall_from L p (n - 1) cs)))"

definition findall :: "pylib \<Rightarrow> regex \<Rightarrow> ustr \<Rightarrow> sval list" where
  "findall L p s = findall_from L p 0 s"

text \<open>\<open>\d{m,n}\<close>, \<open>\d{n}\<close>, \<open>\d+\<close> and \<open>(.+)\<close>\<close>

definition digits :: "nat \<Rightarrow> nat \<Rightarrow> regex" where
  "digits lo hi = Rep [CDigit] lo (Some hi)"

definition digits1 :: regex where
  "digits1 = Rep [CDigit] 1 None"

definition any1 :: regex where
  "any1 = Rep [CDot] 1 None"

section \<open>Intent classifier (agent\_core.py)\<close>

record intent =
  itype :: ustr
  confidence :: rat
  entities :: "(ustr \<times> sval) list"

text \<open>
  The keyword lists of \<open>_detect_intent\<close>. The Chinese keywords are, in order:
  tianqi, qiwen, xiayu, qingtian, yintian, fengsu (weather); huiyi, anpai, richeng,
  yuehui, tixing (calendar); youjian, xinjian, jixin, huixin (email).
\<close>

definition weather_keywords :: "ustr list" where
  "weather_keywords =
     [[0x5929, 0x6C23], [0x6C23, 0x6EAB], [0x4E0B, 0x96E8], [0x6674, 0x5929],
      [0x9670, 0x5929], [0x98A8, 0x901F], u ''weather'', u ''temperature'']"

definition calendar_keywords :: "ustr list" where
  "calendar_keywords =
     [[0x6703, 0x8B70], [0x5B89, 0x6392], [0x65E5, 0x7A0B], [0x7D04, 0x6703],
      [0x63D0, 0x9192], u ''meeting'', u ''schedule'', u ''appointment'']"

definition email_keywords :: "ustr list" where
  "email_keywords =
     [[0x90F5, 0x4EF6], [0x4FE1, 0x4EF6], [0x5BC4, 0x4FE1], [0x56DE, 0x4FE1],
      u ''email'', u ''mail'', u ''send'']"

text \<open>The gazetteer of \<open>_extract_cities\<close>, in the order of the source.\<close>

definition cities :: "ustr list" where
  "cities =
     [[0x53F0, 0x5317], [0x53F0, 0x4E2D], [0x53F0, 0x5357], [0x9AD8, 0x96C4],
      [0x6843, 0x5712], [0x65B0, 0x7AF9], [0x53F0, 0x6771], [0x82B1, 0x84EE],
      [0x53F0, 0x7063], [0x9999, 0x6E2F], [0x6FB3, 0x9580], [0x5317, 0x4EAC],
      [0x4E0A, 0x6D77], [0x5EE3, 0x5DDE], [0x6DF1, 0x5733],
      u ''taipei'', u ''taichung'', u ''kaohsiung'', u ''hong kong'', u ''macau'',
      u ''beijing'', u ''shanghai'', u ''guangzhou'', u ''shenzhen'',
      u ''tokyo'', u ''osaka'', u ''seoul'', u ''singapore'', u ''bangkok'',
      u ''new york'', u ''london'', u ''paris'', u ''sydney'', u ''melbourne'']"

definition extract_cities :: "pylib \<Rightarrow> ustr \<Rightarrow> ustr list" where
  "extract_cities L text =
     (let text_lower = str_lower L text
      in filter (\<lambda>city. py_in (str_lower L city) text_lower) cities)"

text \<open>
  The three patterns of \<open>_extract_time_info\<close>: \<open>(\d{1,2})[dian shi]\<close>,
  \<open>(\d{1,2}):(\d{2})\<close> and \<open>(shangwu|xiawu|zaoshang|wanshang|zhongwu)\<close>.
\<close>

definition time_patterns :: "regex list" where
  "time_patterns =
     [Seq (Grp (digits 1 2)) (Set [CChr 0x9EDE, CChr 0x6642]),
      Seq (Grp (digits 1 2)) (Seq (Lit (u '':'')) (Grp (digits 2 2))),
      Grp (Alt (Lit [0x4E0A, 0x5348]) (Alt (Lit [0x4E0B, 0x5348])
          (Alt (Lit [0x65E9, 0x4E0A]) (Alt (Lit [0x665A, 0x4E0A]) (Lit [0x4E2D, 0x5348])))))]"

text \<open>The loop over the patterns: the first pattern with a match gives \<open>matches[0]\<close>.\<close>

fun first_match :: "pylib \<Rightarrow> regex list \<Rightarrow> ustr \<Rightarrow> sval option" where
  "first_match L [] text = None"
| "first_match L (pattern # rest) text =
     (case findall L pattern text of
        [] \<Rightarrow> first_match L rest text
      | m # _ \<Rightarrow> Some m)"

definition extract_time_info :: "pylib \<Rightarrow> ustr \<Rightarrow> (ustr \<times> sval) list" where
  "extract_time_info L text =
     (let time_info =
            (if py_in [0x4ECA, 0x5929] text \<or> py_in [0x4ECA, 0x65E5] text
               then [(u ''date'', Str (u ''today''))]
             else if py_in [0x660E, 0x5929] text \<or> py_in [0x660E, 0x65E5] text
               then [(u ''date'', Str (u ''tomorrow''))]
             else if py_in [0x5F8C, 0x5929] text
               then [(u ''date'', Str (u ''day_after_tomorrow''))]
             else [])
      in case first_match L time_patterns text of
           None \<Rightarrow> time_info
         | Some m \<Rightarrow> dict_set (u ''time'') m time_info)"

definition detect_intent :: "pylib \<Rightarrow> ustr \<Rightarrow> intent" where
  "detect_intent L user_input =
     (let user_input_lower = str_lower L user_input;
          intent = \<lparr>itype = u ''general'', confidence = 0, entities = []\<rparr>
      in if any_in weather_keywords user_input_lower then
           (let found = extract_cities L user_input
            in intent\<lparr>itype := u ''weather'', confidence := 8 / 10,
                 entities := (case found of [] \<Rightarrow> [] | city # _ \<Rightarrow> [(u ''city'', Str city)])\<rparr>)
         else if any_in calendar_keywords user_input_lower then
           (let time_info = extract_time_info L user_input
            in intent\<lparr>itype := u ''calendar'', confidence := 7 / 10,
                 entities := dict_update [] time_info\<rparr>)
         else if any_in email_keywords user_input_lower then
           intent\<lparr>itype := u ''email'', confidence := 7 / 10\<rparr>
         else intent)"

text \<open>
  A concrete library for evaluating the model: exact on ASCII, on the CJK Unified
  Ideographs (U+4E00 to U+9FFF: letters without case) and on whitespace; every other
  code point is taken as a symbol without case. Timestamps are read in the form
  \<open>YYYY-MM-DDTHH:MM...\<close> that \<open>datetime.isoformat\<close> writes. \<open>int()\<close> converts
  at most 4300 digits, the default of the interpreter. The arithmetic of floats is that
  of IEEE 754 doubles: the exact result rounded to the nearest double, to the one with
  the even significand in case of a tie (\<open>round_double\<close>; results beyond the largest
  double are not covered).
\<close>

definition ascii_lower :: "nat \<Rightarrow> nat" where
  "ascii_lower c = (if 0x41 \<le> c \<and> c \<le> 0x5A then c + 0x20 else c)"

definition basic_space :: "nat \<Rightarrow> bool" where
  "basic_space c =
     ((0x09 \<le> c \<and> c \<le> 0x0D) \<or> (0x1C \<le> c \<and> c \<le> 0x20) \<or> c = 0x85 \<or> c = 0xA0
      \<or> c = 0x1680 \<or> (0x2000 \<le> c \<and> c \<le> 0x200A) \<or> c = 0x2028 \<or> c = 0x2029
      \<or> c = 0x202F \<or> c = 0x205F \<or> c = 0x3000)"

definition basic_digit :: "nat \<Rightarrow> bool" where
  "basic_digit c = (0x30 \<le> c \<and> c \<le> 0x39)"

definition basic_word :: "nat \<Rightarrow> bool" where
  "basic_word c =
     (basic_digit c \<or> (0x41 \<le> c \<and> c \<le> 0x5A) \<or> (0x61 \<le> c \<and> c \<le> 0x7A) \<or> c = 0x5F
      \<or> (0x4E00 \<le> c \<and> c \<le> 0x9FFF))"

definition basic_mdhm :: "ustr \<Rightarrow> ustr option" where
  "basic_mdhm s =
     (if 16 \<le> length s \<and> list_all basic_digit (take 4 s) \<and> s ! 4 = 0x2D
         \<and> list_all basic_digit (take 2 (drop 5 s)) \<and> s ! 7 = 0x2D
         \<and> list_all basic_digit (take 2 (drop 8 s)) \<and> s ! 10 = 0x54
         \<and> list_all basic_digit (take 2 (drop 11 s)) \<and> s ! 13 = 0x3A
         \<and> list_all basic_digit (take 2 (drop 14 s))
      then Some (take 5 (drop 5 s) @ [0x20] @ take 5 (drop 11 s))
      else None)"

text \<open>The number of binary digits of a natural number.\<close>

fun bit_length :: "nat \<Rightarrow> nat" where
  "bit_length n = (if n = 0 then 0 else Suc (bit_length (n div 2)))"

text \<open>\<open>floor_log2 x\<close> is the integer \<open>k\<close> with \<open>2^k \<le> x < 2^(k+1)\<close>, for \<open>x > 0\<close>.\<close>

definition floor_log2 :: "rat \<Rightarrow> int" where
  "floor_log2 x =
     (if 1 \<le> x then int (bit_length (nat \<lfloor>x\<rfloor>)) - 1
      else (let y = 1 / x; l = int (bit_length (nat \<lfloor>y\<rfloor>)) - 1
            in if y = 2 ^ nat l then - l else - l - 1))"

definition pow2 :: "int \<Rightarrow> rat" where
  "pow2 e = (if 0 \<le> e then 2 ^ nat e else 1 / 2 ^ nat (- e))"

definition round_half_even :: "rat \<Rightarrow> int" where
  "round_half_even x =
     (let f = \<lfloor>x\<rfloor>; d = x - of_int f
      in if d < 1 / 2 then f else if 1 / 2 < d then f + 1 else if even f then f else f + 1)"

text \<open>
  The double nearest to \<open>x\<close>: a significand of 53 binary digits, scaled by a power of
  two that is at least \<open>2^-1074\<close>. \<open>double_exp a\<close> is the exponent of that power
  for \<open>a > 0\<close>, \<open>round_at e a\<close> rounds \<open>a\<close> to a multiple of \<open>2^e\<close>.
\<close>

definition double_exp :: "rat \<Rightarrow> int" where
  "double_exp a = max (floor_log2 a - 52) (- 1074)"

definition round_at :: "int \<Rightarrow> rat \<Rightarrow> rat" where
  "round_at e a = of_int (round_half_even (a / pow2 e)) * pow2 e"

definition round_double :: "rat \<Rightarrow> rat" where
  "round_double x =
     (if x = 0 then 0
      else if 0 < x then round_at (double_exp x) x
      else - round_at (double_exp (- x)) (- x))"

definition basic_lib :: pylib where
  "basic_lib =
     \<lparr>str_lower = map ascii_lower, is_space = basic_space, is_word = basic_word,
      is_digit = basic_digit, digit_value = (\<lambda>c. c - 0x30), max_str_digits = 4300,
      iso_to_mdhm = basic_mdhm,
      float_add = (\<lambda>x y. round_double (x + y)),
      float_mul = (\<lambda>x y. round_double (x * y)),
      float_div = (\<lambda>x y. round_double (x / y)),
      int_truediv = (\<lambda>a b. round_double (of_int a / of_int b)),
      float_of_int = (\<lambda>i. round_double (of_int i))\<rparr>"

section \<open>Tool dispatch and request processing (agent\_core.py)\<close>

text \<open>
  The assistant object. The hosted model and the three tool objects are collaborators:
  the model maps a prompt to a text, a tool maps its arguments and the state of the tool
  objects to a text and a new state; either may raise an exception, which is \<open>Inl\<close> of
  the exception's message. The weather tool is \<open>None\<close> when the assistant was created
  without a weather key.
\<close>

record 's assistant =
  system_prompt :: ustr
  model_generate :: "ustr \<Rightarrow> ustr + ustr"
  weather_tool :: "(sval \<Rightarrow> 's \<Rightarrow> (ustr + ustr) \<times> 's) option"
  calendar_tool :: "ustr \<Rightarrow> (ustr \<times> sval) list \<Rightarrow> 's \<Rightarrow> (ustr + ustr) \<times> 's"
  email_tool :: "ustr \<Rightarrow> 's \<Rightarrow> (ustr + ustr) \<times> 's"

record message =
  role :: ustr
  content :: ustr

text \<open>The two notices of \<open>_use_tool\<close>: tool not configured, and error while using the tool.\<close>

definition not_configured :: "ustr \<Rightarrow> ustr" where
  "not_configured tool_name =
     [0x274C] @ u '' '' @ tool_name @ u '' '' @ [0x5DE5, 0x5177, 0x5C1A, 0x672A, 0x914D, 0x7F6E]"

definition tool_error :: "ustr \<Rightarrow> ustr \<Rightarrow> ustr" where
  "tool_error tool_name e =
     [0x274C] @ u '' '' @ [0x4F7F, 0x7528] @ u '' '' @ tool_name @ u '' ''
       @ [0x5DE5, 0x5177, 0x6642, 0x767C, 0x751F, 0x932F, 0x8AA4] @ u '': '' @ e"

text \<open>The \<open>try\<close> block around the call of the tool.\<close>

definition guarded :: "ustr \<Rightarrow> (ustr + ustr) \<times> 's \<Rightarrow> ustr \<times> 's" where
  "guarded tool_name r =
     (case fst r of Inr text \<Rightarrow> (text, snd r) | Inl e \<Rightarrow> (tool_error tool_name e, snd r))"

definition use_tool :: "'s assistant \<Rightarrow> ustr \<Rightarrow> intent \<Rightarrow> ustr \<Rightarrow> 's \<Rightarrow> ustr \<times> 's" where
  "use_tool A tool_name intent user_input st =
     (if tool_name = u ''weather'' then
        (case weather_tool A of
           None \<Rightarrow> (not_configured tool_name, st)
         | Some get_weather \<Rightarrow>
             (let city = (case dict_get (entities intent) (u ''city'') of
                            None \<Rightarrow> Str [0x53F0, 0x5317] | Some c \<Rightarrow> c)
              in guarded tool_name (get_weather city st)))
      else if tool_name = u ''calendar'' then
        guarded tool_name (calendar_tool A user_input (entities intent) st)
      else if tool_name = u ''email'' then
        guarded tool_name (email_tool A user_input st)
      else (not_configured tool_name, st))"

definition str_strip :: "pylib \<Rightarrow> ustr \<Rightarrow> ustr" where
  "str_strip L s = rev (dropWhile (is_space L) (rev (dropWhile (is_space L) s)))"

text \<open>\<open>chr(10).join(lines)\<close>\<close>

fun join_lines :: "ustr list \<Rightarrow> ustr" where
  "join_lines [] = []"
| "join_lines [l] = l"
| "join_lines (l # ls) = l @ [0x0A] @ join_lines ls"

definition generate_response :: "'s assistant \<Rightarrow> ustr \<Rightarrow> ustr \<Rightarrow> ustr list \<Rightarrow> pylib \<Rightarrow> ustr" where
  "generate_response A user_input context memories L =
     (let full_prompt =
            [0x0A] @ system_prompt A
            @ [0xA, 0xA, 0x57FA, 0x65BC, 0x4EE5, 0x4E0B, 0x8CC7, 0x8A0A, 0x56DE, 0x61C9, 0x7528,
               0x6236, 0xFF1A, 0xA, 0xA, 0x7528, 0x6236, 0x8F38, 0x5165, 0xFF1A]
            @ user_input
            @ [0xA, 0xA, 0x4E0A, 0x4E0B, 0x6587, 0x8CC7, 0x8A0A, 0xFF1A, 0xA]
            @ context
            @ [0xA, 0xA, 0x76F8, 0x95DC, 0x8A18, 0x61B6, 0xFF1A, 0xA]
            @ (if memories \<noteq> [] then join_lines memories
               else [0x7121, 0x76F8, 0x95DC, 0x8A18, 0x61B6])
            @ [0xA, 0xA, 0x8ACB, 0x751F, 0x6210, 0x4E00, 0x500B, 0x6709, 0x5E6B, 0x52A9, 0x3001,
               0x81EA, 0x7136, 0x7684, 0x56DE, 0x61C9, 0x3002, 0x5982, 0x679C, 0x6709, 0x4F7F,
               0x7528, 0x5DE5, 0x5177, 0x7372, 0x5F97, 0x7684, 0x8CC7, 0x8A0A, 0xFF0C, 0x8ACB,
               0x6574, 0x5408, 0x5230, 0x56DE, 0x61C9, 0x4E2D, 0x3002, 0xA]
      in case model_generate A full_prompt of
           Inr text \<Rightarrow> str_strip L text
         | Inl e \<Rightarrow>
             [0x274C] @ u '' '' @ [0x751F, 0x6210, 0x56DE, 0x61C9, 0x6642, 0x767C, 0x751F,
               0x932F, 0x8AA4] @ u '': '' @ e)"

text \<open>
  The lines of \<open>process_request\<close> between the classification and the generation of the
  response: they build the context. \<open>now_text\<close> is the current time as
  \<open>strftime('%Y-%m-%d %H:%M:%S')\<close> renders it. The result is the context and the
  state of the tools.
\<close>

definition history_lines :: "message list option \<Rightarrow> ustr" where
  "history_lines chat_history =
     (case chat_history of
        None \<Rightarrow> []
      | Some [] \<Rightarrow> []
      | Some msgs \<Rightarrow>
          [0xA, 0x6700, 0x8FD1, 0x5C0D, 0x8A71, 0xFF1A, 0xA]
          @ concat (map (\<lambda>msg. (if role msg = u ''user'' then [0x7528, 0x6236]
                                    else [0x52A9, 0x7406]) @ u '': '' @ content msg @ [0x0A])
                        (drop (length msgs - 3) msgs)))"

definition build_context ::
  "'s assistant \<Rightarrow> intent \<Rightarrow> ustr \<Rightarrow> message list option \<Rightarrow> ustr \<Rightarrow> 's \<Rightarrow> ustr \<times> 's" where
  "build_context A intent user_input chat_history now_text st =
     (let context = [0x7576, 0x524D, 0x6642, 0x9593, 0xFF1A] @ now_text @ [0x0A]
      in if itype intent \<noteq> u ''general'' \<and> confidence intent > 5 / 10 then
           (let (tool_result, st') = use_tool A (itype intent) intent user_input st
            in (context @ [0xA, 0x5DE5, 0x5177, 0x57F7, 0x884C, 0x7D50, 0x679C, 0xFF1A, 0xA]
                  @ tool_result @ [0x0A] @ history_lines chat_history,
                st'))
         else (context @ history_lines chat_history, st))"

definition process_request ::
  "'s assistant \<Rightarrow> pylib \<Rightarrow> ustr \<Rightarrow> ustr list option \<Rightarrow> message list option \<Rightarrow> ustr \<Rightarrow> 's
     \<Rightarrow> ustr \<times> 's" where
  "process_request A L user_input memories chat_history now_text st =
     (if str_strip L user_input = [] then
        ([0x8ACB, 0x544A, 0x8A34, 0x6211, 0x60A8, 0x9700, 0x8981, 0x4EC0, 0x9EBC, 0x5E6B, 0x52A9]
           @ u '' '' @ [0x1F60A], st)
      else
        (let intent = detect_intent L user_input;
             (context, st') = build_context A intent user_input chat_history now_text st;
             response = generate_response A user_input context
                          (case memories of None \<Rightarrow> [] | Some ms \<Rightarrow> ms) L
         in (response, st')))"

text \<open>
  Which tool methods run. A call of a tool method is \<open>get_weather(city)\<close>,
  \<open>manage_schedule(user_input, entities)\<close> or \<open>process_email(user_input)\<close>.
  \<open>logged A\<close> is the assistant \<open>A\<close> with tools that, besides doing what the tools of
  \<open>A\<close> do, write their call into a log kept beside the state of the tools. The tool
  methods invoked while the context is built are the calls that the log holds
  afterwards, the log being empty before.
\<close>

datatype tool_call =
    Get_weather sval
  | Manage_schedule ustr "(ustr \<times> sval) list"
  | Process_email ustr

definition logged :: "'s assistant \<Rightarrow> ('s \<times> tool_call list) assistant" where
  "logged A =
     \<lparr>system_prompt = system_prompt A,
      model_generate = model_generate A,
      weather_tool =
        (case weather_tool A of
           None \<Rightarrow> None
         | Some get_weather \<Rightarrow>
             Some (\<lambda>city sl. (fst (get_weather city (fst sl)),
                               snd (get_weather city (fst sl)), snd sl @ [Get_weather city]))),
      calendar_tool =
        (\<lambda>user_input ents sl.
           (fst (calendar_tool A user_input ents (fst sl)),
            snd (calendar_tool A user_input ents (fst sl)),
            snd sl @ [Manage_schedule user_input ents])),
      email_tool =
        (\<lambda>user_input sl.
           (fst (email_tool A user_input (fst sl)),
            snd (email_tool A user_input (fst sl)),
            snd sl @ [Process_email user_input]))\<rparr>"

definition invocations ::
  "'s assistant \<Rightarrow> intent \<Rightarrow> ustr \<Rightarrow> message list option \<Rightarrow> ustr \<Rightarrow> 's \<Rightarrow> tool_call list" where
  "invocations A intent user_input chat_history now_text st =
     snd (snd (build_context (logged A) intent user_input chat_history now_text (st, [])))"

text \<open>
  An assistant created without a weather key, for evaluating the model: the hosted
  model echoes its prompt, and the calendar and email tools are stand-ins that answer
  with a fixed text and count their calls in the state.
\<close>

definition count_calendar :: "ustr \<Rightarrow> (ustr \<times> sval) list \<Rightarrow> nat \<Rightarrow> (ustr + ustr) \<times> nat" where
  "count_calendar user_input ents st = (Inr (u ''calendar result''), Suc st)"

definition count_email :: "ustr \<Rightarrow> nat \<Rightarrow> (ustr + ustr) \<times> nat" where
  "count_email user_input st = (Inr (u ''email result''), Suc st)"

definition assistant_without_weather :: "nat assistant" where
  "assistant_without_weather =
     \<lparr>system_prompt = [], model_generate = Inr, weather_tool = None,
      calendar_tool = count_calendar, email_tool = count_email\<rparr>"

section \<open>Memory store (memory.py)\<close>

text \<open>
  A memory entry, a fact record and the store. The importance is a \<open>float\<close>: the
  rational number that is the value of the double. The timestamp is the string that
  \<open>datetime.now().isoformat()\<close> returned.
\<close>

record memory =
  m_timestamp :: ustr
  m_user_input :: ustr
  m_assistant_response :: ustr
  m_importance :: rat
  m_keywords :: "ustr list"
  m_category :: ustr

record fact =
  f_content :: ustr
  f_timestamp :: ustr
  f_context :: ustr

record store =
  max_memories :: int
  memories :: "memory list"
  user_preferences :: "(ustr \<times> sval list) list"
  important_facts :: "(ustr \<times> fact) list"

definition init_store :: "int \<Rightarrow> store" where
  "init_store n = \<lparr>max_memories = n, memories = [], user_preferences = [], important_facts = []\<rparr>"

text \<open>\<open>xs[:n]\<close> for an integer \<open>n\<close>: a negative \<open>n\<close> counts from the end.\<close>

definition py_prefix :: "int \<Rightarrow> 'a list \<Rightarrow> 'a list" where
  "py_prefix n xs = (if 0 \<le> n then take (nat n) xs else take (length xs - nat (- n)) xs)"

text \<open>\<open>text.split()\<close>: the maximal runs of characters that are not whitespace.\<close>

fun split_ws :: "pylib \<Rightarrow> ustr \<Rightarrow> ustr \<Rightarrow> ustr list" where
  "split_ws L w [] = (if w = [] then [] else [w])"
| "split_ws L w (c # cs) =
     (if is_space L c then (if w = [] then split_ws L [] cs else w # split_ws L [] cs)
      else split_ws L (w @ [c]) cs)"

definition stop_words :: "ustr list" where
  "stop_words =
     [[0x7684], [0x662F], [0x5728], [0x4E86], [0x6709], [0x548C], [0x5C31], [0x90FD], [0x800C],
      [0x53CA], [0x8207], [0x6216], [0x4F46], [0x4E0D], [0x6C92], [0x5F88], [0x9084], [0x4E5F],
      [0x53EA], [0x518D], [0x66F4], [0x6700], [0x975E, 0x5E38],
      u ''the'', u ''is'', u ''at'', u ''which'', u ''on'', u ''and'', u ''a'', u ''to'',
      u ''as'', u ''are'', u ''was'', u ''will'', u ''be'', u ''have'', u ''has'', u ''had'',
      u ''do'', u ''does'', u ''did'']"

definition extract_keywords :: "pylib \<Rightarrow> ustr \<Rightarrow> ustr list" where
  "extract_keywords L text =
     (let cleaned = map (\<lambda>c. if is_word L c \<or> is_space L c then c else 0x20) (str_lower L text);
          words = split_ws L [] cleaned;
          keywords = filter (\<lambda>word. length word > 1 \<and> word \<notin> set stop_words) words
      in take 10 keywords)"

text \<open>The categories of \<open>_categorize_memory\<close> with their keywords, in the order of the dict.\<close>

definition categories :: "(ustr \<times> ustr list) list" where
  "categories =
     [(u ''weather'', [[0x5929, 0x6C23], [0x6C23, 0x6EAB], [0x4E0B, 0x96E8], [0x6674, 0x5929],
                       u ''weather'']),
      (u ''schedule'', [[0x6703, 0x8B70], [0x5B89, 0x6392], [0x65E5, 0x7A0B], [0x7D04, 0x6703],
                        u ''meeting'', u ''schedule'']),
      (u ''email'', [[0x90F5, 0x4EF6], [0x4FE1, 0x4EF6], [0x5BC4, 0x4FE1], u ''email'', u ''mail'']),
      (u ''personal'', [[0x6211], [0x6211, 0x7684], [0x500B, 0x4EBA], [0x559C, 0x6B61],
                        [0x504F, 0x597D], u ''my'', u ''personal'']),
      (u ''work'', [[0x5DE5, 0x4F5C], [0x516C, 0x53F8], [0x540C, 0x4E8B], [0x5C08, 0x6848],
                    u ''work'', u ''project'', u ''company'']),
      (u ''general'', [])]"

fun first_category :: "(ustr \<times> ustr list) list \<Rightarrow> ustr \<Rightarrow> ustr" where
  "first_category [] s = u ''general''"
| "first_category ((category, keywords) # rest) s =
     (if any_in keywords s then category else first_category rest s)"

definition categorize_memory :: "pylib \<Rightarrow> ustr \<Rightarrow> ustr" where
  "categorize_memory L user_input = first_category categories (str_lower L user_input)"

text \<open>
  The six patterns of \<open>_extract_user_preferences\<close>: wo xihuan \<open>(.+)\<close>, wo bu xihuan
  \<open>(.+)\<close>, wo de \<open>(.+)\<close> shi \<open>(.+)\<close>, wo zhu zai \<open>(.+)\<close>, wo de gongzuo shi
  \<open>(.+)\<close>, wo jiao \<open>(.+)\<close>. The third has two groups.
\<close>

definition preference_patterns :: "(regex \<times> ustr) list" where
  "preference_patterns =
     [(Seq (Lit [0x6211, 0x559C, 0x6B61]) (Grp any1), u ''likes''),
      (Seq (Lit [0x6211, 0x4E0D, 0x559C, 0x6B61]) (Grp any1), u ''dislikes''),
      (Seq (Lit [0x6211, 0x7684]) (Seq (Grp any1) (Seq (Lit [0x662F]) (Grp any1))),
       u ''attributes''),
      (Seq (Lit [0x6211, 0x4F4F, 0x5728]) (Grp any1), u ''location''),
      (Seq (Lit [0x6211, 0x7684, 0x5DE5, 0x4F5C, 0x662F]) (Grp any1), u ''job''),
      (Seq (Lit [0x6211, 0x53EB]) (Grp any1), u ''name'')]"

definition add_preference ::
  "pylib \<Rightarrow> ustr \<Rightarrow> (ustr \<times> sval list) list \<Rightarrow> regex \<times> ustr \<Rightarrow> (ustr \<times> sval list) list" where
  "add_preference L user_input prefs pp =
     (case findall L (fst pp) user_input of
        [] \<Rightarrow> prefs
      | m # ms \<Rightarrow>
          (let old = (case dict_get prefs (snd pp) of None \<Rightarrow> [] | Some vs \<Rightarrow> vs)
           in dict_set (snd pp) (old @ m # ms) prefs))"

definition extract_user_preferences ::
  "pylib \<Rightarrow> ustr \<Rightarrow> (ustr \<times> sval list) list \<Rightarrow> (ustr \<times> sval list) list" where
  "extract_user_preferences L user_input prefs =
     foldl (add_preference L user_input) prefs preference_patterns"

text \<open>
  The five patterns of \<open>_extract_important_facts\<close>: a date \<open>(\d{4} nian \d{1,2} yue
  \d{1,2} ri)\<close>, a time \<open>(\d{1,2}:\d{2})\<close>, an event \<open>([\d\w\s]+(?:huiyi|huodong|yuehui))\<close>,
  a mail address \<open>([\w\s]+@[\w\s]+\.[\w\s]+)\<close>, a telephone number
  \<open>(\d{4}-\d{4}-\d{4})\<close>. Each is one group, so every match is a string.
\<close>

definition fact_patterns :: "regex list" where
  "fact_patterns =
     [Grp (Seq (digits 4 4) (Seq (Lit [0x5E74]) (Seq (digits 1 2) (Seq (Lit [0x6708])
        (Seq (digits 1 2) (Lit [0x65E5])))))),
      Grp (Seq (digits 1 2) (Seq (Lit (u '':'')) (digits 2 2))),
      Grp (Seq (Rep [CDigit, CWord, CSpace] 1 None)
        (Alt (Lit [0x6703, 0x8B70]) (Alt (Lit [0x6D3B, 0x52D5]) (Lit [0x7D04, 0x6703])))),
      Grp (Seq (Rep [CWord, CSpace] 1 None) (Seq (Lit (u ''@''))
        (Seq (Rep [CWord, CSpace] 1 None) (Seq (Lit (u ''.'')) (Rep [CWord, CSpace] 1 None))))),
      Grp (Seq (digits 4 4) (Seq (Lit (u ''-'')) (Seq (digits 4 4)
        (Seq (Lit (u ''-'')) (digits 4 4)))))]"

text \<open>
  The inner loop: every match becomes a fact under the key \<open>timestamp_match\<close>. The
  case of a tuple does not arise (lemma \<open>fact_matches_are_strings\<close>).
\<close>

definition add_fact :: "ustr \<Rightarrow> ustr \<Rightarrow> (ustr \<times> fact) list \<Rightarrow> sval \<Rightarrow> (ustr \<times> fact) list" where
  "add_fact timestamp user_input facts m =
     (case m of
        Str s \<Rightarrow>
          dict_set (timestamp @ u ''_'' @ s)
            \<lparr>f_content = s, f_timestamp = timestamp, f_context = take 100 user_input\<rparr> facts
      | Tup gs \<Rightarrow> facts)"

text \<open>
  \<open>fact_now i\<close> is the reading of \<open>datetime.now().isoformat()\<close> taken for pattern
  number \<open>i\<close> (it is taken only if that pattern has matches).
\<close>

definition extract_important_facts ::
  "pylib \<Rightarrow> (nat \<Rightarrow> ustr) \<Rightarrow> ustr \<Rightarrow> ustr \<Rightarrow> (ustr \<times> fact) list \<Rightarrow> (ustr \<times> fact) list" where
  "extract_important_facts L fact_now user_input assistant_response facts =
     (let text = user_input @ u '' '' @ assistant_response
      in foldl (\<lambda>acc (i, pattern).
                  foldl (add_fact (fact_now i) user_input) acc (findall L pattern text))
           facts (zip [0 ..< length fact_patterns] fact_patterns))"

text \<open>
  \<open>sort(key=..., reverse=True)\<close>: descending by the key, entries with equal keys in
  their original order.
\<close>

definition sort_desc :: "('a \<Rightarrow> 'k :: linorder) \<Rightarrow> 'a list \<Rightarrow> 'a list" where
  "sort_desc key xs = rev (sort_key key (rev xs))"

definition memory_key :: "memory \<Rightarrow> rat \<times> ustr" where
  "memory_key x = (m_importance x, m_timestamp x)"

definition cleanup_memories :: "store \<Rightarrow> store" where
  "cleanup_memories s =
     (if int (length (memories s)) > max_memories s then
        s\<lparr>memories := py_prefix (max_memories s) (sort_desc memory_key (memories s))\<rparr>
      else s)"

text \<open>
  The entry that \<open>add_memory\<close> builds; \<open>now\<close> is the reading of
  \<open>datetime.now().isoformat()\<close> for it.
\<close>

definition new_memory :: "pylib \<Rightarrow> ustr \<Rightarrow> ustr \<Rightarrow> ustr \<Rightarrow> rat \<Rightarrow> memory" where
  "new_memory L now user_input assistant_response importance =
     \<lparr>m_timestamp = now, m_user_input = user_input,
      m_assistant_response = assistant_response, m_importance = importance,
      m_keywords = extract_keywords L (user_input @ u '' '' @ assistant_response),
      m_category = categorize_memory L user_input\<rparr>"

definition add_memory ::
  "pylib \<Rightarrow> ustr \<Rightarrow> (nat \<Rightarrow> ustr) \<Rightarrow> ustr \<Rightarrow> ustr \<Rightarrow> rat \<Rightarrow> store \<Rightarrow> store" where
  "add_memory L now fact_now user_input assistant_response importance s =
     (let memory = new_memory L now user_input assistant_response importance;
          s1 = s\<lparr>memories := memories s @ [memory]\<rparr>;
          s2 = s1\<lparr>user_preferences := extract_user_preferences L user_input (user_preferences s1)\<rparr>;
          s3 = s2\<lparr>important_facts :=
                   extract_important_facts L fact_now user_input assistant_response
                     (important_facts s2)\<rparr>
      in cleanup_memories s3)"

text \<open>A clock that gives the same reading for every fact pattern.\<close>

definition fixed_clock :: "ustr \<Rightarrow> nat \<Rightarrow> ustr" where
  "fixed_clock t i = t"

text \<open>
  Retrieval. The sets of keywords are handled as duplicate-free lists: \<open>keyword_overlap\<close>
  is the size of the intersection, \<open>keyword_union\<close> the size of the union.
\<close>

datatype py_exc = ValueError | AttributeError | JSONDecodeError

definition keyword_overlap :: "ustr list \<Rightarrow> ustr list \<Rightarrow> nat" where
  "keyword_overlap query_keywords memory_keywords =
     length (remdups (filter (\<lambda>k. k \<in> set memory_keywords) query_keywords))"

definition keyword_union :: "ustr list \<Rightarrow> ustr list \<Rightarrow> nat" where
  "keyword_union query_keywords memory_keywords =
     length (remdups (query_keywords @ memory_keywords))"

text \<open>
  The literals \<open>0.7\<close> and \<open>0.3\<close> of the source are the doubles nearest to 7/10 and
  3/10.
\<close>

definition double_0_7 :: rat where
  "double_0_7 = 3152519739159347 / 4503599627370496"

definition double_0_3 :: rat where
  "double_0_3 = 5404319552844595 / 18014398509481984"

text \<open>
  \<open>keyword_overlap / len(union) * 0.7 + memory['importance'] * 0.3\<close>: a division
  of two integers, two multiplications and an addition of floats, each rounding. The
  score is computed for entries with a keyword in common only, so the union is not
  empty.
\<close>

definition relevance_score :: "pylib \<Rightarrow> ustr list \<Rightarrow> memory \<Rightarrow> rat" where
  "relevance_score L query_keywords x =
     float_add L
       (float_mul L
          (int_truediv L (int (keyword_overlap query_keywords (m_keywords x)))
             (int (keyword_union query_keywords (m_keywords x))))
          double_0_7)
       (float_mul L (m_importance x) double_0_3)"

text \<open>The loop over the memories: the entries with a keyword in common, with their scores.\<close>

definition score_memories :: "pylib \<Rightarrow> ustr list \<Rightarrow> memory list \<Rightarrow> (memory \<times> rat) list" where
  "score_memories L query_keywords ms =
     map (\<lambda>x. (x, relevance_score L query_keywords x))
       (filter (\<lambda>x. keyword_overlap query_keywords (m_keywords x) > 0) ms)"

text \<open>\<open>relevant_memories[:limit]\<close> after the sort by score.\<close>

definition top_relevant :: "pylib \<Rightarrow> memory list \<Rightarrow> ustr \<Rightarrow> int \<Rightarrow> (memory \<times> rat) list" where
  "top_relevant L ms query limit =
     py_prefix limit (sort_desc snd (score_memories L (extract_keywords L query) ms))"

definition format_memory :: "ustr \<Rightarrow> memory \<Rightarrow> ustr" where
  "format_memory stamp x =
     u ''['' @ stamp @ u ''] '' @ [0x7528, 0x6236] @ u '': '' @ take 50 (m_user_input x) @ u ''...''"

fun format_memories :: "pylib \<Rightarrow> (memory \<times> rat) list \<Rightarrow> py_exc + ustr list" where
  "format_memories L [] = Inr []"
| "format_memories L (item # items) =
     (case iso_to_mdhm L (m_timestamp (fst item)) of
        None \<Rightarrow> Inl ValueError
      | Some stamp \<Rightarrow>
          (case format_memories L items of
             Inl e \<Rightarrow> Inl e
           | Inr result \<Rightarrow> Inr (format_memory stamp (fst item) # result)))"

definition get_relevant_memories :: "pylib \<Rightarrow> store \<Rightarrow> ustr \<Rightarrow> int \<Rightarrow> py_exc + ustr list" where
  "get_relevant_memories L s query limit =
     (if memories s = [] then Inr []
      else format_memories L (top_relevant L (memories s) query limit))"

text \<open>
  Statistics. The result is a dict whose values are a count, a mean or the dict of
  counts. The sum of the importances starts at the integer \<open>0\<close> and is a sum of floats,
  added one by one; the mean is that sum divided by the number of entries.
\<close>

datatype stat = Count nat | Mean rat | Counts "(ustr \<times> nat) list"

definition count_category :: "(ustr \<times> nat) list \<Rightarrow> memory \<Rightarrow> (ustr \<times> nat) list" where
  "count_category counts x =
     dict_set (m_category x)
       ((case dict_get counts (m_category x) of None \<Rightarrow> 0 | Some n \<Rightarrow> n) + 1) counts"

definition get_memory_statistics :: "pylib \<Rightarrow> store \<Rightarrow> (ustr \<times> stat) list" where
  "get_memory_statistics L s =
     (if memories s = [] then
        [(u ''total_memories'', Count 0), (u ''categories'', Counts []),
         (u ''average_importance'', Mean 0)]
      else
        (let counts = foldl count_category [] (memories s);
             total_importance =
               foldl (\<lambda>acc x. float_add L acc (m_importance x)) (float_of_int L 0) (memories s)
         in [(u ''total_memories'', Count (length (memories s))),
             (u ''categories'', Counts counts),
             (u ''average_importance'',
                Mean (float_div L total_importance (float_of_int L (int (length (memories s)))))),
             (u ''user_preferences_count'', Count (length (user_preferences s))),
             (u ''important_facts_count'', Count (length (important_facts s)))]))"

text \<open>
  Export and import. The values of Python that occur are \<open>pyval\<close>; a JSON document is
  \<open>json\<close>. Python's \<open>json\<close> module is a collaborator: a text handed to \<open>json.loads\<close> is
  represented by the document it denotes, or by \<open>Malformed\<close> when it denotes none, and
  \<open>json.dumps\<close> yields the text of the document of a value. \<open>to_json\<close> and \<open>of_json\<close>
  are the module's mapping between values and documents: lists and tuples both become
  arrays, an array becomes a list.
\<close>

datatype pyval =
    PNone
  | PBool bool
  | PInt int
  | PFloat rat
  | PStr ustr
  | PList "pyval list"
  | PTuple "pyval list"
  | PDict "(ustr \<times> pyval) list"

datatype json =
    JNull
  | JBool bool
  | JInt int
  | JFloat rat
  | JStr ustr
  | JArr "json list"
  | JObj "(ustr \<times> json) list"

datatype json_text = Doc json | Malformed

fun to_json :: "pyval \<Rightarrow> json" where
  "to_json PNone = JNull"
| "to_json (PBool b) = JBool b"
| "to_json (PInt i) = JInt i"
| "to_json (PFloat x) = JFloat x"
| "to_json (PStr s) = JStr s"
| "to_json (PList vs) = JArr (map to_json vs)"
| "to_json (PTuple vs) = JArr (map to_json vs)"
| "to_json (PDict kvs) = JObj (map (map_prod id to_json) kvs)"

fun of_json :: "json \<Rightarrow> pyval" where
  "of_json JNull = PNone"
| "of_json (JBool b) = PBool b"
| "of_json (JInt i) = PInt i"
| "of_json (JFloat x) = PFloat x"
| "of_json (JStr s) = PStr s"
| "of_json (JArr js) = PList (map of_json js)"
| "of_json (JObj kjs) = PDict (map (map_prod id of_json) kjs)"

definition json_dumps :: "pyval \<Rightarrow> json_text" where
  "json_dumps v = Doc (to_json v)"

definition json_loads :: "json_text \<Rightarrow> py_exc + pyval" where
  "json_loads t = (case t of Doc j \<Rightarrow> Inr (of_json j) | Malformed \<Rightarrow> Inl JSONDecodeError)"

text \<open>
  \<open>data.get(key, default)\<close>: AttributeError when \<open>data\<close> is not a dict. The items of a
  dict that was read from a document are looked up from the end, the last of several
  items with one key being the one that \<open>json.loads\<close> keeps.
\<close>

definition py_get :: "pyval \<Rightarrow> ustr \<Rightarrow> pyval \<Rightarrow> py_exc + pyval" where
  "py_get data key dflt =
     (case data of
        PDict kvs \<Rightarrow> (case map_of (rev kvs) key of None \<Rightarrow> Inr dflt | Some v \<Rightarrow> Inr v)
      | _ \<Rightarrow> Inl AttributeError)"

text \<open>
  The three attributes of the store as Python values: what \<open>export_memories\<close> writes and
  what \<open>import_memories\<close> assigns.
\<close>

record pystore =
  py_memories :: pyval
  py_user_preferences :: pyval
  py_important_facts :: pyval

definition py_of_memory :: "memory \<Rightarrow> pyval" where
  "py_of_memory x =
     PDict [(u ''timestamp'', PStr (m_timestamp x)),
            (u ''user_input'', PStr (m_user_input x)),
            (u ''assistant_response'', PStr (m_assistant_response x)),
            (u ''importance'', PFloat (m_importance x)),
            (u ''keywords'', PList (map PStr (m_keywords x))),
            (u ''category'', PStr (m_category x))]"

definition py_of_sval :: "sval \<Rightarrow> pyval" where
  "py_of_sval v = (case v of Str s \<Rightarrow> PStr s | Tup gs \<Rightarrow> PTuple (map PStr gs))"

definition py_of_fact :: "fact \<Rightarrow> pyval" where
  "py_of_fact f =
     PDict [(u ''content'', PStr (f_content f)),
            (u ''timestamp'', PStr (f_timestamp f)),
            (u ''context'', PStr (f_context f))]"

definition py_of_store :: "store \<Rightarrow> pystore" where
  "py_of_store s =
     \<lparr>py_memories = PList (map py_of_memory (memories s)),
      py_user_preferences =
        PDict (map (\<lambda>kv. (fst kv, PList (map py_of_sval (snd kv)))) (user_preferences s)),
      py_important_facts =
        PDict (map (\<lambda>kv. (fst kv, py_of_fact (snd kv))) (important_facts s))\<rparr>"

text \<open>\<open>now\<close> is the reading of \<open>datetime.now().isoformat()\<close> for the export timestamp.\<close>

definition export_memories :: "pystore \<Rightarrow> ustr \<Rightarrow> json_text" where
  "export_memories p now =
     json_dumps (PDict [(u ''memories'', py_memories p),
                        (u ''user_preferences'', py_user_preferences p),
                        (u ''important_facts'', py_important_facts p),
                        (u ''export_timestamp'', PStr now)])"

text \<open>
  The body of \<open>import_memories\<close>, statement by statement: an exception at any of them
  leaves the assignments made so far in place and returns \<open>False\<close>.
\<close>

definition import_memories :: "json_text \<Rightarrow> pystore \<Rightarrow> bool \<times> pystore" where
  "import_memories json_data p =
     (case json_loads json_data of
        Inl e \<Rightarrow> (False, p)
      | Inr data \<Rightarrow>
          (case py_get data (u ''memories'') (PList []) of
             Inl e \<Rightarrow> (False, p)
           | Inr ms \<Rightarrow>
               (let p1 = p\<lparr>py_memories := ms\<rparr>
                in case py_get data (u ''user_preferences'') (PDict []) of
                     Inl e \<Rightarrow> (False, p1)
                   | Inr prefs \<Rightarrow>
                       (let p2 = p1\<lparr>py_user_preferences := prefs\<rparr>
                        in case py_get data (u ''important_facts'') (PDict []) of
                             Inl e \<Rightarrow> (False, p2)
                           | Inr facts \<Rightarrow> (True, p2\<lparr>py_important_facts := facts\<rparr>)))))"

text \<open>What the round trip through a document makes of a value: tuples come back as lists.\<close>

fun untuple :: "pyval \<Rightarrow> pyval" where
  "untuple (PList vs) = PList (map untuple vs)"
| "untuple (PTuple vs) = PList (map untuple vs)"
| "untuple (PDict kvs) = PDict (map (map_prod id untuple) kvs)"
| "untuple v = v"

text \<open>
  A store with three entries, used to evaluate the retrieval: two exchanges about
  Python of importance 0.2 and 0.9 (the doubles nearest to 2/10 and 9/10), and one
  about the weather of importance 1.0.
\<close>

definition example_store :: store where
  "example_store =
     \<lparr>max_memories = 100,
      memories =
        [new_memory basic_lib (u ''2024-06-11T09:00:00.000001'') (u ''python tips'') (u ''k'')
           (3602879701896397 / 18014398509481984),
         new_memory basic_lib (u ''2024-06-11T09:05:00.000001'')
           (u ''python code review notes today'') (u ''k'')
           (8106479329266893 / 9007199254740992),
         new_memory basic_lib (u ''2024-06-11T09:10:00.000001'') (u ''weather today'')
           (u ''sunny'') 1],
      user_preferences = [], important_facts = []\<rparr>"

section \<open>Numbers in text\<close>

text \<open>
  \<open>int(s)\<close> for a run \<open>s\<close> of decimal digits, and \<open>str(i)\<close> for an integer.
  \<open>int_of_digits\<close> is the number that the digits denote; \<open>int()\<close> raises ValueError
  when the interpreter has a limit on the number of digits and the run is longer. The
  first match of \<open>\d+\<close> is how both tools read an id from the input
  (\<open>_extract_event_id\<close>, \<open>_extract_email_id\<close>): \<open>None\<close> when the text has no digit.
\<close>

definition int_of_digits :: "pylib \<Rightarrow> ustr \<Rightarrow> int" where
  "int_of_digits L s = foldl (\<lambda>acc c. 10 * acc + int (digit_value L c)) 0 s"

definition py_int :: "pylib \<Rightarrow> ustr \<Rightarrow> py_exc + int" where
  "py_int L s =
     (if 0 < max_str_digits L \<and> max_str_digits L < length s then Inl ValueError
      else Inr (int_of_digits L s))"

fun str_nat :: "nat \<Rightarrow> ustr" where
  "str_nat n = (if n < 10 then [0x30 + n] else str_nat (n div 10) @ [0x30 + n mod 10])"

definition str_int :: "int \<Rightarrow> ustr" where
  "str_int i = (if i < 0 then u ''-'' @ str_nat (nat (- i)) else str_nat (nat i))"

definition extract_id :: "pylib \<Rightarrow> ustr \<Rightarrow> py_exc + int option" where
  "extract_id L text =
     (case findall L digits1 text of
        [] \<Rightarrow> Inr None
      | Str s # _ \<Rightarrow> (case py_int L s of Inl e \<Rightarrow> Inl e | Inr i \<Rightarrow> Inr (Some i))
      | Tup gs # _ \<Rightarrow> Inr None)"

text \<open>The truth value of an optional integer in a condition: \<open>None\<close> and \<open>0\<close> are false.\<close>

definition truthy :: "int option \<Rightarrow> bool" where
  "truthy v = (case v of None \<Rightarrow> False | Some i \<Rightarrow> i \<noteq> 0)"

section \<open>Calendar tool (tools/calendar.py)\<close>

record event =
  ev_id :: int
  ev_title :: ustr
  ev_date :: ustr
  ev_time :: sval
  ev_duration :: ustr
  ev_location :: ustr
  ev_description :: ustr
  ev_created_at :: ustr
  ev_priority :: ustr

record calendar =
  events :: "event list"
  event_id_counter :: int

definition init_calendar :: calendar where
  "init_calendar = \<lparr>events = [], event_id_counter = 1\<rparr>"

text \<open>
  The keyword lists of \<open>_detect_schedule_intent\<close>, tested in the order add, view,
  delete, update.
\<close>

definition add_keywords :: "ustr list" where
  "add_keywords =
     [[0x5B89, 0x6392], [0x9810, 0x7D04], [0x8A2D, 0x5B9A], [0x65B0, 0x589E], [0x6DFB, 0x52A0],
      [0x7D04], [0x6703, 0x8B70], u ''schedule'', u ''add'', u ''book'']"

definition view_keywords :: "ustr list" where
  "view_keywords =
     [[0x67E5, 0x770B], [0x986F, 0x793A], [0x770B], [0x4ECA, 0x5929], [0x660E, 0x5929],
      [0x672C, 0x9031], u ''show'', u ''view'', u ''list'']"

definition delete_keywords :: "ustr list" where
  "delete_keywords =
     [[0x522A, 0x9664], [0x53D6, 0x6D88], [0x79FB, 0x9664], u ''delete'', u ''cancel'',
      u ''remove'']"

definition update_keywords :: "ustr list" where
  "update_keywords =
     [[0x4FEE, 0x6539], [0x66F4, 0x6539], [0x8ABF, 0x6574], u ''update'', u ''modify'',
      u ''change'']"

definition detect_schedule_intent :: "pylib \<Rightarrow> ustr \<Rightarrow> ustr" where
  "detect_schedule_intent L user_input =
     (let user_input_lower = str_lower L user_input
      in if any_in add_keywords user_input_lower then u ''add''
         else if any_in view_keywords user_input_lower then u ''view''
         else if any_in delete_keywords user_input_lower then u ''delete''
         else if any_in update_keywords user_input_lower then u ''update''
         else u ''help'')"

text \<open>
  The loop of \<open>_delete_event\<close>: the first event with the id is popped from the list.
\<close>

fun pop_event :: "int \<Rightarrow> event list \<Rightarrow> (event \<times> event list) option" where
  "pop_event event_id [] = None"
| "pop_event event_id (e # es) =
     (if ev_id e = event_id then Some (e, es)
      else (case pop_event event_id es of
              None \<Rightarrow> None
            | Some (deleted, rest) \<Rightarrow> Some (deleted, e # rest)))"

text \<open>
  The three messages of \<open>_delete_event\<close>: deleted, id not found, no id given. An
  exception of \<open>_extract_event_id\<close> leaves \<open>_delete_event\<close> before anything is
  changed: the result is then the exception, and the calendar is as it was.
\<close>

definition deleted_message :: "ustr \<Rightarrow> ustr" where
  "deleted_message title =
     [0x2705] @ u '' '' @ [0x5DF2, 0x6210, 0x529F, 0x522A, 0x9664, 0x4E8B, 0x4EF6, 0x300C]
       @ title @ [0x300D]"

definition event_not_found :: "int \<Rightarrow> ustr" where
  "event_not_found event_id =
     [0x274C] @ u '' '' @ [0x627E, 0x4E0D, 0x5230] @ u ''ID'' @ [0x70BA] @ u '' ''
       @ str_int event_id @ u '' '' @ [0x7684, 0x4E8B, 0x4EF6]"

definition no_event_id :: ustr where
  "no_event_id =
     [0x274C] @ u '' '' @ [0x8ACB, 0x6307, 0x5B9A, 0x8981, 0x522A, 0x9664, 0x7684, 0x4E8B, 0x4EF6]
       @ u ''ID'' @ [0xFF0C, 0x4F8B, 0x5982, 0xFF1A, 0x300C, 0x522A, 0x9664, 0x4E8B, 0x4EF6]
       @ u ''1'' @ [0x300D, 0x6216, 0x5148, 0x67E5, 0x770B, 0x4E8B, 0x4EF6, 0x5217, 0x8868,
                    0x7372, 0x53D6] @ u ''ID''"

definition delete_event :: "pylib \<Rightarrow> ustr \<Rightarrow> calendar \<Rightarrow> py_exc + ustr \<times> calendar" where
  "delete_event L user_input cal =
     (case extract_id L user_input of
        Inl e \<Rightarrow> Inl e
      | Inr event_id \<Rightarrow>
          Inr (if truthy event_id then
                 (case pop_event (the event_id) (events cal) of
                    Some (deleted_event, rest) \<Rightarrow>
                      (deleted_message (ev_title deleted_event), cal\<lparr>events := rest\<rparr>)
                  | None \<Rightarrow> (event_not_found (the event_id), cal))
               else (no_event_id, cal)))"

section \<open>Email tool (tools/email.py)\<close>

record email =
  e_id :: int
  e_from :: ustr
  e_to :: ustr
  e_subject :: ustr
  e_body :: ustr
  e_date :: ustr
  e_read :: bool
  e_priority :: ustr

text \<open>The mailbox the constructor builds: \<open>self.mock_emails\<close>.\<close>

definition mock_emails :: "email list" where
  "mock_emails =
     [\<lparr>e_id = 1, e_from = u ''john.doe@company.com'', e_to = u ''user@email.com'',
       e_subject = [0x9031, 0x6703, 0x8B70, 0x7A0B, 0x78BA, 0x8A8D],
       e_body = [0x8ACB, 0x78BA, 0x8A8D, 0x660E, 0x5929, 0x7684, 0x9031, 0x6703, 0x8B70, 0x7A0B,
                 0xFF0C, 0x6703, 0x8B70, 0x6642, 0x9593, 0x662F, 0x4E0A, 0x5348]
                @ u ''10'' @ [0x9EDE, 0x3002],
       e_date = u ''2024-06-11'', e_read = False, e_priority = u ''normal''\<rparr>,
      \<lparr>e_id = 2, e_from = u ''hr@company.com'', e_to = u ''user@email.com'',
       e_subject = [0x5E74, 0x5047, 0x7533, 0x8ACB, 0x5BE9, 0x6838],
       e_body = [0x60A8, 0x7684, 0x5E74, 0x5047, 0x7533, 0x8ACB, 0x5DF2, 0x901A, 0x904E, 0x5BE9,
                 0x6838, 0xFF0C, 0x8ACB, 0x67E5, 0x770B, 0x9644, 0x4EF6, 0x3002],
       e_date = u ''2024-06-10'', e_read = True, e_priority = u ''high''\<rparr>,
      \<lparr>e_id = 3, e_from = u ''client@external.com'', e_to = u ''user@email.com'',
       e_subject = [0x5C08, 0x6848, 0x9032, 0x5EA6, 0x8A62, 0x554F],
       e_body = [0x60F3, 0x4E86, 0x89E3, 0x4E00, 0x4E0B, 0x76EE, 0x524D, 0x5C08, 0x6848, 0x7684,
                 0x9032, 0x5EA6, 0x5982, 0x4F55, 0xFF1F, 0x9810, 0x8A08, 0x4EC0, 0x9EBC, 0x6642,
                 0x5019, 0x53EF, 0x4EE5, 0x5B8C, 0x6210, 0xFF1F],
       e_date = u ''2024-06-09'', e_read = False, e_priority = u ''urgent''\<rparr>]"

text \<open>\<open>_find_email_by_id\<close>: the first entry with the id.\<close>

fun find_email_by_id :: "int \<Rightarrow> email list \<Rightarrow> email option" where
  "find_email_by_id email_id [] = None"
| "find_email_by_id email_id (e # es) =
     (if e_id e = email_id then Some e else find_email_by_id email_id es)"

text \<open>
  \<open>email['read'] = True\<close> on the entry that \<open>_find_email_by_id\<close> returned: the
  entry is an element of the mailbox, so the assignment changes the mailbox at the
  first entry with the id.
\<close>

fun mark_read :: "int \<Rightarrow> email list \<Rightarrow> email list" where
  "mark_read email_id [] = []"
| "mark_read email_id (e # es) =
     (if e_id e = email_id then e\<lparr>e_read := True\<rparr> # es else e # mark_read email_id es)"

definition single_priority_icon :: "ustr \<Rightarrow> ustr" where
  "single_priority_icon priority =
     (if priority = u ''urgent'' then [0x1F534] @ u '' '' @ [0x7DCA, 0x6025]
      else if priority = u ''high'' then [0x1F7E1] @ u '' '' @ [0x91CD, 0x8981]
      else [0x1F7E2] @ u '' '' @ [0x4E00, 0x822C])"

definition format_single_email :: "email \<Rightarrow> ustr" where
  "format_single_email email =
     [0x1F4E7] @ u '' **'' @ [0x90F5, 0x4EF6, 0x8A73, 0x60C5] @ u ''**''
     @ [0xA, 0xA, 0x1F4CB] @ u '' **'' @ [0x4E3B, 0x65E8] @ u ''**: '' @ e_subject email
     @ [0xA, 0x1F4E4] @ u '' **'' @ [0x5BC4, 0x4EF6, 0x8005] @ u ''**: '' @ e_from email
     @ [0xA, 0x1F4E5] @ u '' **'' @ [0x6536, 0x4EF6, 0x8005] @ u ''**: '' @ e_to email
     @ [0xA, 0x1F4C5] @ u '' **'' @ [0x65E5, 0x671F] @ u ''**: '' @ e_date email
     @ [0xA, 0x26A1] @ u '' **'' @ [0x512A, 0x5148, 0x7D1A] @ u ''**: ''
     @ single_priority_icon (e_priority email)
     @ [0xA, 0xA, 0x1F4DD] @ u '' **'' @ [0x5167, 0x5BB9] @ u ''**:'' @ [0xA] @ e_body email
     @ [0xA, 0xA] @ u ''---'' @ [0xA, 0x1F4A1] @ u '' **'' @ [0x64CD, 0x4F5C, 0x5EFA, 0x8B70]
     @ u ''**: '' @ [0xA, 0x2022] @ u '' ''
     @ [0x56DE, 0x8986, 0x6B64, 0x90F5, 0x4EF6, 0xFF1A, 0x300C, 0x56DE, 0x8986, 0x90F5, 0x4EF6]
     @ str_int (e_id email)
     @ [0x300D, 0xA, 0x2022] @ u '' ''
     @ [0x6A19, 0x8A18, 0x70BA, 0x91CD, 0x8981, 0xFF1A, 0x300C, 0x6A19, 0x8A18, 0x90F5, 0x4EF6]
     @ str_int (e_id email) @ [0x70BA, 0x91CD, 0x8981, 0x300D]"

definition list_priority_icon :: "ustr \<Rightarrow> ustr" where
  "list_priority_icon priority =
     (if priority = u ''urgent'' then [0x1F534]
      else if priority = u ''high'' then [0x1F7E1]
      else [0x1F7E2])"

definition format_email_entry :: "nat \<Rightarrow> email \<Rightarrow> ustr" where
  "format_email_entry i email =
     u ''**'' @ str_nat i @ u ''. '' @ e_subject email @ u ''** ''
     @ list_priority_icon (e_priority email) @ u '' ''
     @ (if e_read email then [0x2705] else [0x1F195]) @ [0xA]
     @ u ''   '' @ [0x1F4E4] @ u '' '' @ [0x5BC4, 0x4EF6, 0x8005] @ u '': '' @ e_from email @ [0xA]
     @ u ''   '' @ [0x1F4C5] @ u '' '' @ [0x65E5, 0x671F] @ u '': '' @ e_date email @ [0xA]
     @ u ''   '' @ [0x1F4DD] @ u '' '' @ [0x9810, 0x89BD] @ u '': '' @ take 50 (e_body email)
     @ u ''...'' @ [0xA]
     @ u ''   '' @ [0x1F522] @ u '' ID: '' @ str_int (e_id email) @ [0xA, 0xA]"

definition format_email_list :: "email list \<Rightarrow> ustr \<Rightarrow> ustr" where
  "format_email_list emails title =
     title @ [0xA, 0xA]
     @ concat (map (\<lambda>(i, email). format_email_entry i email)
                 (zip [1 ..< Suc (length emails)] emails))
     @ [0x1F4CA] @ u '' **'' @ [0x7D71, 0x8A08] @ u ''**: '' @ [0x5171] @ u '' ''
     @ str_nat (length emails) @ u '' '' @ [0x5C01, 0x90F5, 0x4EF6, 0xA]
     @ [0x1F4A1] @ u '' '' @ [0x4F7F, 0x7528, 0x300C, 0x67E5, 0x770B, 0x90F5, 0x4EF6] @ u ''{ID}''
     @ [0x300D, 0x4F86, 0x8B80, 0x53D6, 0x5B8C, 0x6574, 0x5167, 0x5BB9]"

definition email_not_found :: "int \<Rightarrow> ustr" where
  "email_not_found email_id =
     [0x274C] @ u '' '' @ [0x627E, 0x4E0D, 0x5230] @ u ''ID'' @ [0x70BA] @ u '' ''
       @ str_int email_id @ u '' '' @ [0x7684, 0x90F5, 0x4EF6]"

definition no_emails_message :: ustr where
  "no_emails_message =
     [0x1F4EA] @ u '' '' @ [0x6C92, 0x6709, 0x627E, 0x5230, 0x7B26, 0x5408, 0x689D, 0x4EF6,
                            0x7684, 0x90F5, 0x4EF6, 0x3002]"

text \<open>
  \<open>_read_emails\<close>: the text returned and the mailbox afterwards. Only the branch of
  a found id changes the mailbox. An exception of \<open>_extract_email_id\<close> leaves
  \<open>_read_emails\<close> before anything is changed: the result is then the exception, and
  the mailbox is as it was.
\<close>

definition read_emails :: "pylib \<Rightarrow> ustr \<Rightarrow> email list \<Rightarrow> py_exc + ustr \<times> email list" where
  "read_emails L user_input mailbox =
     (case extract_id L user_input of
        Inl e \<Rightarrow> Inl e
      | Inr email_id \<Rightarrow> Inr
        (if truthy email_id then
           (case find_email_by_id (the email_id) mailbox of
              Some email \<Rightarrow>
                (format_single_email (email\<lparr>e_read := True\<rparr>),
                 mark_read (the email_id) mailbox)
            | None \<Rightarrow> (email_not_found (the email_id), mailbox))
         else
           (let (emails, title) =
                  (if py_in [0x672A, 0x8B80] user_input
                      \<or> py_in (u ''unread'') (str_lower L user_input)
                   then (filter (\<lambda>e. \<not> e_read e) mailbox,
                         [0x1F4E7] @ u '' **'' @ [0x672A, 0x8B80, 0x90F5, 0x4EF6] @ u ''**'')
                   else if py_in [0x91CD, 0x8981] user_input
                      \<or> py_in (u ''important'') (str_lower L user_input)
                   then (filter (\<lambda>e. e_priority e \<in> set [u ''high'', u ''urgent'']) mailbox,
                         [0x26A1] @ u '' **'' @ [0x91CD, 0x8981, 0x90F5, 0x4EF6] @ u ''**'')
                   else (drop (length mailbox - 5) mailbox,
                         [0x1F4E7] @ u '' **'' @ [0x6700, 0x65B0, 0x90F5, 0x4EF6] @ u ''**''))
            in if emails = [] then (no_emails_message, mailbox)
               else (format_email_list emails title, mailbox))))"

text \<open>
  The states of the mailbox: the one the constructor builds, and every state a read
  request leads to. No other method of the tool assigns to the mailbox or to an entry
  of it.
\<close>

inductive mailbox_state :: "pylib \<Rightarrow> email list \<Rightarrow> bool" for L :: pylib where
  initial: "mailbox_state L mock_emails"
| read: "mailbox_state L mailbox \<Longrightarrow> read_emails L user_input mailbox = Inr (text, mailbox') \<Longrightarrow>
           mailbox_state L mailbox'"

text \<open>A regular expression without a capturing group.\<close>

fun group_free :: "regex \<Rightarrow> bool" where
  "group_free (Lit k) = True"
| "group_free (Set cs) = True"
| "group_free (Rep cs lo hi) = True"
| "group_free (Seq p q) = (group_free p \<and> group_free q)"
| "group_free (Alt p q) = (group_free p \<and> group_free q)"
| "group_free (Grp p) = False"

section \<open>Verified properties\<close>

subsection \<open>Intent classifier\<close>

lemma detect_intent_weather:
  "any_in weather_keywords (str_lower L s) \<Longrightarrow>
     itype (detect_intent L s) = u ''weather'' \<and> confidence (detect_intent L s) = 8 / 10"
  by (simp add: detect_intent_def Let_def)

lemma detect_intent_general:
  "\<not> any_in weather_keywords (str_lower L s) \<Longrightarrow>
   \<not> any_in calendar_keywords (str_lower L s) \<Longrightarrow>
   \<not> any_in email_keywords (str_lower L s) \<Longrightarrow>
     detect_intent L s = \<lparr>itype = u ''general'', confidence = 0, entities = []\<rparr>"
  by (simp add: detect_intent_def Let_def)

lemma detect_intent_type:
  "itype (detect_intent L s) \<in> {u ''general'', u ''weather'', u ''calendar'', u ''email''}"
  by (simp add: detect_intent_def Let_def)

lemma detect_intent_confidence:
  "0 \<le> confidence (detect_intent L s) \<and> confidence (detect_intent L s) \<le> 1"
  by (simp add: detect_intent_def Let_def)

lemmas intent_eval =
  detect_intent_def basic_lib_def u_def any_in_def weather_keywords_def
  calendar_keywords_def email_keywords_def extract_time_info_def time_patterns_def
  findall_def digits_def Let_def ascii_lower_def in_set_def basic_digit_def
  findall_item_def dict_update_def extract_cities_def cities_def

text \<open>
  C1. Every input in which a weather keyword occurs (as a substring of the lower-cased
  input) is classified as \<open>weather\<close> with confidence 0.8, whatever calendar or email
  keywords it also contains; an input in which no keyword of the three lists occurs is
  classified as \<open>general\<close> with confidence 0.0.
\<close>

theorem detect_intent_weather_first:
  "(any_in weather_keywords (str_lower L s) \<longrightarrow>
      itype (detect_intent L s) = u ''weather'' \<and> confidence (detect_intent L s) = 8 / 10)
   \<and> (\<not> any_in weather_keywords (str_lower L s)
        \<and> \<not> any_in calendar_keywords (str_lower L s)
        \<and> \<not> any_in email_keywords (str_lower L s) \<longrightarrow>
      itype (detect_intent L s) = u ''general'' \<and> confidence (detect_intent L s) = 0)"
  using detect_intent_weather [of L s] detect_intent_general [of L s] by simp

text \<open>
  The theorem at "Weather for my Meeting" (a weather and a calendar keyword) and at
  "hello there" (no keyword).
\<close>

theorem detect_intent_weather_first_witness:
  "any_in weather_keywords (str_lower basic_lib (u ''Weather for my Meeting''))
   \<and> any_in calendar_keywords (str_lower basic_lib (u ''Weather for my Meeting''))
   \<and> itype (detect_intent basic_lib (u ''Weather for my Meeting'')) = u ''weather''
   \<and> confidence (detect_intent basic_lib (u ''Weather for my Meeting'')) = 8 / 10
   \<and> \<not> any_in weather_keywords (str_lower basic_lib (u ''hello there''))
   \<and> \<not> any_in calendar_keywords (str_lower basic_lib (u ''hello there''))
   \<and> \<not> any_in email_keywords (str_lower basic_lib (u ''hello there''))
   \<and> itype (detect_intent basic_lib (u ''hello there'')) = u ''general''
   \<and> confidence (detect_intent basic_lib (u ''hello there'')) = 0"
proof -
  have w: "any_in weather_keywords (str_lower basic_lib (u ''Weather for my Meeting''))"
    by (simp add: any_in_def weather_keywords_def basic_lib_def u_def ascii_lower_def)
  have c: "any_in calendar_keywords (str_lower basic_lib (u ''Weather for my Meeting''))"
    by (simp add: any_in_def calendar_keywords_def basic_lib_def u_def ascii_lower_def)
  have g1: "\<not> any_in weather_keywords (str_lower basic_lib (u ''hello there''))"
    by (simp add: any_in_def weather_keywords_def basic_lib_def u_def ascii_lower_def)
  have g2: "\<not> any_in calendar_keywords (str_lower basic_lib (u ''hello there''))"
    by (simp add: any_in_def calendar_keywords_def basic_lib_def u_def ascii_lower_def)
  have g3: "\<not> any_in email_keywords (str_lower basic_lib (u ''hello there''))"
    by (simp add: any_in_def email_keywords_def basic_lib_def u_def ascii_lower_def)
  show ?thesis
    using w c g1 g2 g3
      detect_intent_weather_first [of basic_lib "u ''Weather for my Meeting''"]
      detect_intent_weather_first [of basic_lib "u ''hello there''"]
    by blast
qed

text \<open>
  C9. The entities of a classified input are not always strings. On the input
  "anpai huiyi 14:30" (U+5B89 U+6392 U+6703 U+8B70, a space, 14:30) the first time
  pattern finds nothing, the second one, which has two groups, matches, and
  \<open>matches[0]\<close> is the tuple \<open>('14', '30')\<close>: the entity \<open>time\<close> is a tuple of two
  strings, where \<open>_extract_time_info\<close> is annotated \<open>Dict[str, str]\<close>.
\<close>

theorem detect_intent_time_entity_tuple:
  "detect_intent basic_lib ([0x5B89, 0x6392, 0x6703, 0x8B70] @ u '' 14:30'') =
     \<lparr>itype = u ''calendar'', confidence = 7 / 10,
      entities = [(u ''time'', Tup [u ''14'', u ''30''])]\<rparr>"
  by (simp add: intent_eval)

subsection \<open>Memory store: export and import\<close>

lemma of_json_to_json: "of_json (to_json v) = untuple v"
  by (induction v) (auto simp: map_idI prod.map_comp comp_def intro!: map_cong prod.map_cong)

lemma untuple_py_of_memory: "untuple (py_of_memory x) = py_of_memory x"
  by (simp add: py_of_memory_def comp_def)

lemma untuple_py_of_fact: "untuple (py_of_fact f) = py_of_fact f"
  by (simp add: py_of_fact_def)

lemma untuple_py_of_sval: "(\<exists>t. v = Str t) \<Longrightarrow> untuple (py_of_sval v) = py_of_sval v"
  by (auto simp: py_of_sval_def)

lemma import_export:
  "import_memories (export_memories p now) q =
     (True, \<lparr>py_memories = untuple (py_memories p),
             py_user_preferences = untuple (py_user_preferences p),
             py_important_facts = untuple (py_important_facts p)\<rparr>)"
  by (simp add: import_memories_def export_memories_def json_dumps_def json_loads_def
      py_get_def of_json_to_json u_def Let_def)

lemma untuple_memories: "untuple (py_memories (py_of_store s)) = py_memories (py_of_store s)"
  by (simp add: py_of_store_def comp_def untuple_py_of_memory)

lemma untuple_facts:
  "untuple (py_important_facts (py_of_store s)) = py_important_facts (py_of_store s)"
  by (simp add: py_of_store_def comp_def untuple_py_of_fact)

lemma untuple_preferences:
  assumes "\<forall>kv \<in> set (user_preferences s). \<forall>v \<in> set (snd kv). \<exists>t. v = Str t"
  shows "untuple (py_user_preferences (py_of_store s)) = py_user_preferences (py_of_store s)"
proof -
  have "map (map_prod id untuple \<circ> (\<lambda>kv. (fst kv, PList (map py_of_sval (snd kv)))))
          (user_preferences s)
        = map (\<lambda>kv. (fst kv, PList (map py_of_sval (snd kv)))) (user_preferences s)"
    using assms by (auto simp: untuple_py_of_sval intro!: map_cong)
  then show ?thesis
    by (simp add: py_of_store_def)
qed

lemma import_failure:
  "fst (import_memories t p) = False \<Longrightarrow> snd (import_memories t p) = p"
  by (auto simp: import_memories_def py_get_def Let_def
      split: sum.splits pyval.splits option.splits)

lemma import_fails_iff:
  "fst (import_memories t p) = False \<longleftrightarrow>
     (t = Malformed \<or> (\<exists>j. t = Doc j \<and> (\<forall>kjs. j \<noteq> JObj kjs)))"
proof (cases t)
  case (Doc j)
  then show ?thesis
    by (cases j)
      (auto simp: import_memories_def json_loads_def py_get_def Let_def
        split: sum.splits pyval.splits option.splits)
next
  case Malformed
  then show ?thesis
    by (simp add: import_memories_def json_loads_def)
qed

lemmas memory_eval =
  add_memory_def new_memory_def extract_keywords_def categorize_memory_def categories_def
  extract_user_preferences_def preference_patterns_def add_preference_def
  extract_important_facts_def fact_patterns_def add_fact_def cleanup_memories_def
  init_store_def fixed_clock_def stop_words_def any1_def digits_def findall_def
  findall_item_def in_set_def any_in_def dict_get_def basic_lib_def basic_space_def
  basic_word_def basic_digit_def ascii_lower_def u_def Let_def py_prefix_def
  sort_desc_def memory_key_def

lemma add_memory_attribute:
  "add_memory basic_lib (u ''2024-06-11T10:00:00.123456'')
     (fixed_clock (u ''2024-06-11T10:00:00.123456''))
     [0x6211, 0x7684, 0x540D, 0x5B57, 0x662F, 0x5C0F, 0x660E] [0x597D, 0x7684] (1 / 2)
     (init_store 100)
   = \<lparr>max_memories = 100,
      memories =
        [\<lparr>m_timestamp = u ''2024-06-11T10:00:00.123456'',
          m_user_input = [0x6211, 0x7684, 0x540D, 0x5B57, 0x662F, 0x5C0F, 0x660E],
          m_assistant_response = [0x597D, 0x7684], m_importance = 1 / 2,
          m_keywords = [[0x6211, 0x7684, 0x540D, 0x5B57, 0x662F, 0x5C0F, 0x660E], [0x597D, 0x7684]],
          m_category = u ''personal''\<rparr>],
      user_preferences = [(u ''attributes'', [Tup [[0x540D, 0x5B57], [0x5C0F, 0x660E]]])],
      important_facts = []\<rparr>"
  by (simp add: memory_eval)

text \<open>
  C5. Export followed by import returns \<open>True\<close> and reproduces the memories and the
  important facts exactly; the user preferences come back with every tuple turned into
  a list, so they are reproduced exactly when every recorded preference value is a
  string, in particular on the empty store.
\<close>

theorem export_import_round_trip:
  "import_memories (export_memories (py_of_store s) now) q =
     (True, \<lparr>py_memories = py_memories (py_of_store s),
             py_user_preferences = untuple (py_user_preferences (py_of_store s)),
             py_important_facts = py_important_facts (py_of_store s)\<rparr>)
   \<and> ((\<forall>kv \<in> set (user_preferences s). \<forall>v \<in> set (snd kv). \<exists>t. v = Str t) \<longrightarrow>
        import_memories (export_memories (py_of_store s) now) q = (True, py_of_store s))"
  using untuple_preferences [of s]
  by (simp add: import_export untuple_memories untuple_facts)

text \<open>
  The theorem at the empty store and at a store with one entry, the preference
  \<open>likes: ['tea']\<close> and no fact.
\<close>

theorem export_import_round_trip_witness:
  "list_all (\<lambda>kv. list_all (\<lambda>v. \<exists>t. v = Str t) (snd kv))
      (user_preferences (init_store 100))
   \<and> import_memories (export_memories (py_of_store (init_store 100)) (u ''2024-06-11T10:00:00''))
        (py_of_store (init_store 100))
      = (True, \<lparr>py_memories = PList [], py_user_preferences = PDict [],
                py_important_facts = PDict []\<rparr>)
   \<and> list_all (\<lambda>kv. list_all (\<lambda>v. \<exists>t. v = Str t) (snd kv))
        (user_preferences
          \<lparr>max_memories = 100,
           memories = [new_memory basic_lib (u ''2024-06-11T10:00:00'') (u ''I like tea'')
                         (u ''ok'') (1 / 2)],
           user_preferences = [(u ''likes'', [Str (u ''tea'')])],
           important_facts = []\<rparr>)
   \<and> import_memories (export_memories (py_of_store
          \<lparr>max_memories = 100,
           memories = [new_memory basic_lib (u ''2024-06-11T10:00:00'') (u ''I like tea'')
                         (u ''ok'') (1 / 2)],
           user_preferences = [(u ''likes'', [Str (u ''tea'')])],
           important_facts = []\<rparr>) (u ''2024-06-11T10:00:01'')) (py_of_store (init_store 100))
      = (True, py_of_store
          \<lparr>max_memories = 100,
           memories = [new_memory basic_lib (u ''2024-06-11T10:00:00'') (u ''I like tea'')
                         (u ''ok'') (1 / 2)],
           user_preferences = [(u ''likes'', [Str (u ''tea'')])],
           important_facts = []\<rparr>)"
proof -
  have e: "py_of_store (init_store 100)
           = \<lparr>py_memories = PList [], py_user_preferences = PDict [],
              py_important_facts = PDict []\<rparr>"
    by (simp add: py_of_store_def init_store_def)
  have h1: "\<forall>kv \<in> set (user_preferences (init_store 100)). \<forall>v \<in> set (snd kv). \<exists>t. v = Str t"
    by (simp add: init_store_def)
  have h2: "\<forall>kv \<in> set (user_preferences
          \<lparr>max_memories = 100,
           memories = [new_memory basic_lib (u ''2024-06-11T10:00:00'') (u ''I like tea'')
                         (u ''ok'') (1 / 2)],
           user_preferences = [(u ''likes'', [Str (u ''tea'')])],
           important_facts = []\<rparr>). \<forall>v \<in> set (snd kv). \<exists>t. v = Str t"
    by simp
  show ?thesis
    unfolding list_all_iff
    using h1 h2 e
      export_import_round_trip [of "init_store 100" "u ''2024-06-11T10:00:00''"
        "py_of_store (init_store 100)"]
      export_import_round_trip [of "\<lparr>max_memories = 100,
           memories = [new_memory basic_lib (u ''2024-06-11T10:00:00'') (u ''I like tea'')
                         (u ''ok'') (1 / 2)],
           user_preferences = [(u ''likes'', [Str (u ''tea'')])],
           important_facts = []\<rparr>" "u ''2024-06-11T10:00:01''" "py_of_store (init_store 100)"]
    by metis
qed

text \<open>
  The claim as stated fails on the store that results from the exchange "wo de mingzi
  shi Xiaoming" (my name is Xiaoming) / "hao de": the preference pattern with two groups
  records the tuple \<open>('mingzi', 'Xiaoming')\<close> under \<open>attributes\<close>, and the tuple comes
  back from the round trip as a list.
\<close>

theorem export_import_round_trip_counterexample:
  "snd (import_memories
         (export_memories
            (py_of_store
               (add_memory basic_lib (u ''2024-06-11T10:00:00.123456'')
                  (fixed_clock (u ''2024-06-11T10:00:00.123456''))
                  [0x6211, 0x7684, 0x540D, 0x5B57, 0x662F, 0x5C0F, 0x660E] [0x597D, 0x7684] (1 / 2)
                  (init_store 100)))
            (u ''2024-06-11T10:01:00.000001''))
         (py_of_store
            (add_memory basic_lib (u ''2024-06-11T10:00:00.123456'')
               (fixed_clock (u ''2024-06-11T10:00:00.123456''))
               [0x6211, 0x7684, 0x540D, 0x5B57, 0x662F, 0x5C0F, 0x660E] [0x597D, 0x7684] (1 / 2)
               (init_store 100))))
   \<noteq> py_of_store
        (add_memory basic_lib (u ''2024-06-11T10:00:00.123456'')
           (fixed_clock (u ''2024-06-11T10:00:00.123456''))
           [0x6211, 0x7684, 0x540D, 0x5B57, 0x662F, 0x5C0F, 0x660E] [0x597D, 0x7684] (1 / 2)
           (init_store 100))"
  by (simp add: add_memory_attribute import_export py_of_store_def py_of_sval_def)

text \<open>
  C10. Whenever \<open>import_memories\<close> returns \<open>False\<close>, the three structures are what they
  were before the call: the only statements that can fail are \<open>json.loads\<close> and the first
  \<open>data.get\<close>, and both precede the first assignment.
\<close>

theorem import_failure_atomic:
  "fst (import_memories t p) = False \<Longrightarrow> snd (import_memories t p) = p"
  by (rule import_failure)

text \<open>The theorem at a text that is no JSON document and at the document \<open>[]\<close>.\<close>

theorem import_failure_atomic_witness:
  "fst (import_memories Malformed
          \<lparr>py_memories = PList [PInt 1], py_user_preferences = PDict [],
           py_important_facts = PDict []\<rparr>) = False
   \<and> snd (import_memories Malformed
          \<lparr>py_memories = PList [PInt 1], py_user_preferences = PDict [],
           py_important_facts = PDict []\<rparr>)
      = \<lparr>py_memories = PList [PInt 1], py_user_preferences = PDict [],
         py_important_facts = PDict []\<rparr>
   \<and> fst (import_memories (Doc (JArr []))
          \<lparr>py_memories = PList [PInt 1], py_user_preferences = PDict [],
           py_important_facts = PDict []\<rparr>) = False
   \<and> snd (import_memories (Doc (JArr []))
          \<lparr>py_memories = PList [PInt 1], py_user_preferences = PDict [],
           py_important_facts = PDict []\<rparr>)
      = \<lparr>py_memories = PList [PInt 1], py_user_preferences = PDict [],
         py_important_facts = PDict []\<rparr>"
proof -
  have f1: "fst (import_memories Malformed
          \<lparr>py_memories = PList [PInt 1], py_user_preferences = PDict [],
           py_important_facts = PDict []\<rparr>) = False"
    by (simp add: import_memories_def json_loads_def py_get_def)
  have f2: "fst (import_memories (Doc (JArr []))
          \<lparr>py_memories = PList [PInt 1], py_user_preferences = PDict [],
           py_important_facts = PDict []\<rparr>) = False"
    by (simp add: import_memories_def json_loads_def py_get_def)
  show ?thesis
    using f1 f2 import_failure_atomic [OF f1] import_failure_atomic [OF f2]
    by simp
qed

subsection \<open>Memory store: capacity\<close>

lemma mset_sort_desc: "mset (sort_desc key xs) = mset xs"
  by (simp add: sort_desc_def)

lemma length_sort_desc: "length (sort_desc key xs) = length xs"
  by (simp add: sort_desc_def)

lemma set_sort_desc: "set (sort_desc key xs) = set xs"
  by (simp add: sort_desc_def)

lemma sorted_sort_desc: "sorted_wrt (\<lambda>a b. key b \<le> key a) (sort_desc key xs)"
proof -
  have "sorted (map key (sort_key key (rev xs)))"
    by (rule sorted_sort_key)
  then have "sorted_wrt (\<lambda>a b. key a \<le> key b) (sort_key key (rev xs))"
    by (simp add: sorted_map)
  then show ?thesis
    by (simp add: sort_desc_def sorted_wrt_rev)
qed

lemma sorted_wrt_take_drop:
  "sorted_wrt R xs \<Longrightarrow> a \<in> set (take n xs) \<Longrightarrow> b \<in> set (drop n xs) \<Longrightarrow> R a b"
  by (metis append_take_drop_id sorted_wrt_append)

lemma memories_add_memory:
  "memories (add_memory L now fn ui ar imp s) =
     (if max_memories s < int (length (memories s)) + 1
      then py_prefix (max_memories s)
             (sort_desc memory_key (memories s @ [new_memory L now ui ar imp]))
      else memories s @ [new_memory L now ui ar imp])"
  by (simp add: add_memory_def cleanup_memories_def Let_def)

lemma max_memories_add_memory:
  "max_memories (add_memory L now fn ui ar imp s) = max_memories s"
  by (simp add: add_memory_def cleanup_memories_def Let_def)

lemma memory_key_eq: "memory_key = (\<lambda>x. (m_importance x, m_timestamp x))"
  by (simp add: fun_eq_iff memory_key_def)

lemma new_memory_key:
  "m_importance (new_memory L now ui ar imp) = imp"
  "m_timestamp (new_memory L now ui ar imp) = now"
  by (simp_all add: new_memory_def)

lemma key_le_iff:
  "(m_importance d, m_timestamp d) \<le> (m_importance r, m_timestamp r) \<longleftrightarrow>
     m_importance d < m_importance r
     \<or> (m_importance d = m_importance r \<and> m_timestamp d \<le> m_timestamp r)"
  by auto

text \<open>
  C3. With a capacity \<open>max_memories \<ge> 0\<close>: after every \<open>add_memory\<close> the store holds at
  most \<open>max_memories\<close> entries. When the addition makes the count exceed the capacity,
  the retained entries are the first \<open>max_memories\<close> of all entries (the stored ones
  and the new one, of the given importance and with the current time as timestamp)
  sorted by the pair \<open>(importance, timestamp)\<close> in descending order, entries with equal
  pairs in their order of arrival: they are exactly \<open>max_memories\<close> many, together with
  the discarded ones they are all the entries, every discarded entry has a lower
  importance than every retained one, or the same importance and a timestamp that is
  not later, and the retained entries are stored in that descending order. Otherwise
  the new entry is appended. In a full store of one entry, the new entry is discarded
  if it is less important, however recent it is; it replaces the stored one if it is
  more important, or equally important and later; of two entries with the same
  importance and timestamp the stored one stays.
\<close>

theorem add_memory_capacity:
  assumes "0 \<le> max_memories s"
  shows "max_memories (add_memory L now fn ui ar imp s) = max_memories s
    \<and> m_importance (new_memory L now ui ar imp) = imp
    \<and> m_timestamp (new_memory L now ui ar imp) = now
    \<and> int (length (memories (add_memory L now fn ui ar imp s))) \<le> max_memories s
    \<and> (max_memories s < int (length (memories s)) + 1 \<longrightarrow>
         memories (add_memory L now fn ui ar imp s)
           = take (nat (max_memories s))
               (rev (sort_key (\<lambda>x. (m_importance x, m_timestamp x))
                  (rev (memories s @ [new_memory L now ui ar imp]))))
         \<and> int (length (memories (add_memory L now fn ui ar imp s))) = max_memories s
         \<and> mset (memories (add_memory L now fn ui ar imp s))
             + mset (drop (nat (max_memories s))
                 (rev (sort_key (\<lambda>x. (m_importance x, m_timestamp x))
                    (rev (memories s @ [new_memory L now ui ar imp])))))
           = mset (memories s @ [new_memory L now ui ar imp])
         \<and> (\<forall>r \<in> set (memories (add_memory L now fn ui ar imp s)).
              \<forall>d \<in> set (drop (nat (max_memories s))
                    (rev (sort_key (\<lambda>x. (m_importance x, m_timestamp x))
                       (rev (memories s @ [new_memory L now ui ar imp]))))).
                m_importance d < m_importance r
                \<or> (m_importance d = m_importance r \<and> m_timestamp d \<le> m_timestamp r))
         \<and> sorted_wrt (\<lambda>a b. m_importance b < m_importance a
                          \<or> (m_importance b = m_importance a \<and> m_timestamp b \<le> m_timestamp a))
             (memories (add_memory L now fn ui ar imp s)))
    \<and> (int (length (memories s)) + 1 \<le> max_memories s \<longrightarrow>
         memories (add_memory L now fn ui ar imp s)
           = memories s @ [new_memory L now ui ar imp])
    \<and> (\<forall>old. memories s = [old] \<and> max_memories s = 1 \<longrightarrow>
         memories (add_memory L now fn ui ar imp s) =
           (if m_importance old < imp \<or> (m_importance old = imp \<and> m_timestamp old < now)
            then [new_memory L now ui ar imp] else [old]))"
proof -
  let ?new = "new_memory L now ui ar imp"
  let ?all = "memories s @ [?new]"
  let ?key = "\<lambda>x. (m_importance x, m_timestamp x)"
  let ?sorted = "rev (sort_key ?key (rev ?all))"
  let ?n = "nat (max_memories s)"
  let ?after = "memories (add_memory L now fn ui ar imp s)"
  have sd: "sort_desc memory_key ?all = ?sorted"
    by (simp add: sort_desc_def memory_key_eq)
  have srt: "sorted_wrt (\<lambda>a b. ?key b \<le> ?key a) ?sorted"
    using sorted_sort_desc [of ?key ?all] by (simp add: sort_desc_def)
  then have srt': "sorted_wrt (\<lambda>a b. m_importance b < m_importance a
                          \<or> (m_importance b = m_importance a \<and> m_timestamp b \<le> m_timestamp a))
                     ?sorted"
    by (simp only: key_le_iff)
  have mx: "max_memories (add_memory L now fn ui ar imp s) = max_memories s"
    by (rule max_memories_add_memory)
  show ?thesis
  proof (cases "max_memories s < int (length (memories s)) + 1")
    case True
    then have after: "?after = take ?n ?sorted"
      using assms sd by (simp add: memories_add_memory py_prefix_def)
    have len: "int (length ?after) = max_memories s"
      using True assms unfolding after by simp
    have "mset (take ?n ?sorted) + mset (drop ?n ?sorted) = mset ?sorted"
      by (metis append_take_drop_id mset_append)
    then have parts: "mset ?after + mset (drop ?n ?sorted) = mset ?all"
      unfolding after by simp
    have order: "\<forall>r \<in> set ?after. \<forall>d \<in> set (drop ?n ?sorted).
                   m_importance d < m_importance r
                   \<or> (m_importance d = m_importance r \<and> m_timestamp d \<le> m_timestamp r)"
      unfolding after using sorted_wrt_take_drop [OF srt'] by blast
    have sorted_after: "sorted_wrt (\<lambda>a b. m_importance b < m_importance a
                          \<or> (m_importance b = m_importance a \<and> m_timestamp b \<le> m_timestamp a))
                     ?after"
      unfolding after using srt' by (rule sorted_wrt_take)
    have one: "?after = (if m_importance old < imp \<or> (m_importance old = imp \<and> m_timestamp old < now)
                         then [?new] else [old])"
      if "memories s = [old]" "max_memories s = 1" for old
      unfolding after using that by (auto simp add: new_memory_key)
    show ?thesis
      using True mx after len parts order sorted_after one new_memory_key [of L now ui ar imp]
      by auto
  next
    case False
    then have "?after = ?all"
      by (simp add: memories_add_memory)
    then show ?thesis
      using False mx new_memory_key [of L now ui ar imp] by auto
  qed
qed

text \<open>
  The theorem at a full store of capacity 2 and at a full store of capacity 1. The
  first holds an entry of importance 0.5 written at 09:00 and then an entry of
  importance 0.75 written at 08:00; the new entry has importance 0.5 and is written at
  10:00. The sort puts the entry of importance 0.75 first and, of the two entries of
  importance 0.5, the later one next; the entry written at 09:00 is discarded. The
  second holds an entry of importance 0.75 written at 09:00; the new entry of importance
  0.25, written at 10:00, is discarded.
\<close>

theorem add_memory_capacity_witness:
  "0 \<le> max_memories
          \<lparr>max_memories = 2,
           memories = [new_memory basic_lib (u ''2024-06-11T09:00:00'') (u ''first'') (u ''ok'')
                         (1 / 2),
                       new_memory basic_lib (u ''2024-06-11T08:00:00'') (u ''second'') (u ''ok'')
                         (3 / 4)],
           user_preferences = [], important_facts = []\<rparr>
   \<and> max_memories
          \<lparr>max_memories = 2,
           memories = [new_memory basic_lib (u ''2024-06-11T09:00:00'') (u ''first'') (u ''ok'')
                         (1 / 2),
                       new_memory basic_lib (u ''2024-06-11T08:00:00'') (u ''second'') (u ''ok'')
                         (3 / 4)],
           user_preferences = [], important_facts = []\<rparr>
       < int (length (memories
          \<lparr>max_memories = 2,
           memories = [new_memory basic_lib (u ''2024-06-11T09:00:00'') (u ''first'') (u ''ok'')
                         (1 / 2),
                       new_memory basic_lib (u ''2024-06-11T08:00:00'') (u ''second'') (u ''ok'')
                         (3 / 4)],
           user_preferences = [], important_facts = []\<rparr>)) + 1
   \<and> memories (add_memory basic_lib (u ''2024-06-11T10:00:00'')
         (fixed_clock (u ''2024-06-11T10:00:00'')) (u ''third'') (u ''ok'') (1 / 2)
          \<lparr>max_memories = 2,
           memories = [new_memory basic_lib (u ''2024-06-11T09:00:00'') (u ''first'') (u ''ok'')
                         (1 / 2),
                       new_memory basic_lib (u ''2024-06-11T08:00:00'') (u ''second'') (u ''ok'')
                         (3 / 4)],
           user_preferences = [], important_facts = []\<rparr>)
      = [new_memory basic_lib (u ''2024-06-11T08:00:00'') (u ''second'') (u ''ok'') (3 / 4),
         new_memory basic_lib (u ''2024-06-11T10:00:00'') (u ''third'') (u ''ok'') (1 / 2)]
   \<and> 0 \<le> max_memories
          \<lparr>max_memories = 1,
           memories = [new_memory basic_lib (u ''2024-06-11T09:00:00'') (u ''old'') (u ''ok'')
                         (3 / 4)],
           user_preferences = [], important_facts = []\<rparr>
   \<and> max_memories
          \<lparr>max_memories = 1,
           memories = [new_memory basic_lib (u ''2024-06-11T09:00:00'') (u ''old'') (u ''ok'')
                         (3 / 4)],
           user_preferences = [], important_facts = []\<rparr> = 1
   \<and> memories (add_memory basic_lib (u ''2024-06-11T10:00:00'')
         (fixed_clock (u ''2024-06-11T10:00:00'')) (u ''new'') (u ''ok'') (1 / 4)
          \<lparr>max_memories = 1,
           memories = [new_memory basic_lib (u ''2024-06-11T09:00:00'') (u ''old'') (u ''ok'')
                         (3 / 4)],
           user_preferences = [], important_facts = []\<rparr>)
      = [new_memory basic_lib (u ''2024-06-11T09:00:00'') (u ''old'') (u ''ok'') (3 / 4)]"
proof -
  let ?a = "new_memory basic_lib (u ''2024-06-11T09:00:00'') (u ''first'') (u ''ok'') (1 / 2)"
  let ?b = "new_memory basic_lib (u ''2024-06-11T08:00:00'') (u ''second'') (u ''ok'') (3 / 4)"
  let ?c = "new_memory basic_lib (u ''2024-06-11T10:00:00'') (u ''third'') (u ''ok'') (1 / 2)"
  let ?s2 = "\<lparr>max_memories = 2, memories = [?a, ?b], user_preferences = [],
              important_facts = []\<rparr>"
  let ?old = "new_memory basic_lib (u ''2024-06-11T09:00:00'') (u ''old'') (u ''ok'') (3 / 4)"
  let ?s1 = "\<lparr>max_memories = 1, memories = [?old], user_preferences = [],
              important_facts = []\<rparr>"
  let ?now = "u ''2024-06-11T10:00:00''"
  have h2: "0 \<le> max_memories ?s2"
    by simp
  have h1: "0 \<le> max_memories ?s1"
    by simp
  have over: "max_memories ?s2 < int (length (memories ?s2)) + 1"
    by simp
  have t: "u ''2024-06-11T09:00:00'' < ?now" "\<not> ?now \<le> u ''2024-06-11T09:00:00''"
    by (simp_all add: u_def)
  have "memories (add_memory basic_lib ?now (fixed_clock ?now) (u ''third'') (u ''ok'') (1 / 2) ?s2)
          = take (nat (max_memories ?s2))
              (rev (sort_key (\<lambda>x. (m_importance x, m_timestamp x))
                 (rev (memories ?s2 @ [?c]))))"
    using add_memory_capacity [OF h2, of basic_lib ?now "fixed_clock ?now" "u ''third''"
        "u ''ok''" "1 / 2"] over
    by blast
  also have "\<dots> = [?b, ?c]"
    using t by (simp add: new_memory_key)
  finally have r2: "memories (add_memory basic_lib ?now (fixed_clock ?now) (u ''third'') (u ''ok'')
                      (1 / 2) ?s2) = [?b, ?c]" .
  have "\<forall>old. memories ?s1 = [old] \<and> max_memories ?s1 = 1 \<longrightarrow>
         memories (add_memory basic_lib ?now (fixed_clock ?now) (u ''new'') (u ''ok'') (1 / 4) ?s1) =
           (if m_importance old < 1 / 4 \<or> (m_importance old = 1 / 4 \<and> m_timestamp old < ?now)
            then [new_memory basic_lib ?now (u ''new'') (u ''ok'') (1 / 4)] else [old])"
    using add_memory_capacity [OF h1, of basic_lib ?now "fixed_clock ?now" "u ''new''"
        "u ''ok''" "1 / 4"]
    by blast
  then have "memories ?s1 = [?old] \<and> max_memories ?s1 = 1 \<longrightarrow>
         memories (add_memory basic_lib ?now (fixed_clock ?now) (u ''new'') (u ''ok'') (1 / 4) ?s1) =
           (if m_importance ?old < 1 / 4 \<or> (m_importance ?old = 1 / 4 \<and> m_timestamp ?old < ?now)
            then [new_memory basic_lib ?now (u ''new'') (u ''ok'') (1 / 4)] else [?old])"
    by (rule spec)
  then have r1: "memories (add_memory basic_lib ?now (fixed_clock ?now) (u ''new'') (u ''ok'')
                   (1 / 4) ?s1) = [?old]"
    by (simp add: new_memory_key)
  have one: "max_memories ?s1 = 1"
    by simp
  show ?thesis
    using h2 over r2 h1 one r1 by (intro conjI)
qed

subsection \<open>Matches of patterns with at most one group\<close>

text \<open>
  A pattern without a group, or a single group around one, makes \<open>re.findall\<close> return
  strings: the fact patterns and \<open>\d+\<close> never yield a tuple, so the tuple cases of
  \<open>add_fact\<close> and \<open>extract_id\<close> do not arise.
\<close>

lemma rmatch_group_free:
  "group_free p \<Longrightarrow> (r, g) \<in> set (rmatch L p s) \<Longrightarrow> g = []"
proof (induction p arbitrary: r g s)
  case (Lit k)
  then show ?case by (simp split: if_splits)
next
  case (Set cs)
  then show ?case by (auto split: list.splits if_splits)
next
  case (Rep cs lo hi)
  then show ?case by (auto simp add: Let_def)
next
  case (Seq p q)
  then show ?case by fastforce
next
  case (Alt p q)
  then show ?case by auto
next
  case (Grp p)
  then show ?case by simp
qed

lemma rmatch_one_group:
  "group_free p \<Longrightarrow> (r, g) \<in> set (rmatch L (Grp p) s) \<Longrightarrow> length g \<le> 1"
  using rmatch_group_free [of p _ _ L s] by auto

lemma findall_item_string: "length g \<le> 1 \<Longrightarrow> \<exists>t. findall_item w g = Str t"
  by (cases g) (auto simp add: findall_item_def split: list.splits)

lemma findall_from_strings:
  assumes one: "\<And>s r g. (r, g) \<in> set (rmatch L p s) \<Longrightarrow> length g \<le> 1"
  shows "m \<in> set (findall_from L p k s) \<Longrightarrow> \<exists>t. m = Str t"
proof (induction s arbitrary: k)
  case Nil
  note mem = Nil.prems
  show ?case
  proof (cases "rmatch L p []")
    case Nil
    then have "findall_from L p k [] = []"
      by simp
    then show ?thesis using mem by simp
  next
    case (Cons rg rest)
    obtain r g where rg: "rg = (r, g)" by (cases rg)
    have "(r, g) \<in> set (rmatch L p [])"
      using Cons rg by simp
    then have len: "length g \<le> 1" by (rule one)
    have "findall_from L p k [] = (if k = 0 then [findall_item [] g] else [])"
      using Cons rg by simp
    then have "m = findall_item [] g"
      using mem by (simp split: if_splits)
    then show ?thesis
      using findall_item_string [OF len, of "[]"] by simp
  qed
next
  case (Cons c cs)
  note mem = Cons.prems and IH = Cons.IH
  show ?case
  proof (cases "0 < k")
    case True
    then have "findall_from L p k (c # cs) = findall_from L p (k - 1) cs"
      by simp
    then show ?thesis using mem IH by simp
  next
    case False
    show ?thesis
    proof (cases "rmatch L p (c # cs)")
      case Nil
      then have "findall_from L p k (c # cs) = findall_from L p 0 cs"
        using False by simp
      then show ?thesis using mem IH by simp
    next
      case (Cons rg rest)
      obtain r g where rg: "rg = (r, g)" by (cases rg)
      have "(r, g) \<in> set (rmatch L p (c # cs))"
        using Cons rg by simp
      then have len: "length g \<le> 1" by (rule one)
      have "findall_from L p k (c # cs) =
              findall_item (take (length (c # cs) - length r) (c # cs)) g
                # findall_from L p (length (c # cs) - length r - 1) cs"
        using False Cons rg by (simp add: Let_def)
      then have "m = findall_item (take (length (c # cs) - length r) (c # cs)) g
                 \<or> m \<in> set (findall_from L p (length (c # cs) - length r - 1) cs)"
        using mem by simp
      then show ?thesis
        using IH findall_item_string [OF len, of "take (length (c # cs) - length r) (c # cs)"]
        by auto
    qed
  qed
qed

lemma findall_group_strings:
  "group_free p \<Longrightarrow> m \<in> set (findall L (Grp p) text) \<Longrightarrow> \<exists>t. m = Str t"
  unfolding findall_def using rmatch_one_group findall_from_strings by metis

lemma findall_group_free_strings:
  "group_free p \<Longrightarrow> m \<in> set (findall L p text) \<Longrightarrow> \<exists>t. m = Str t"
proof -
  assume gf: "group_free p" and m: "m \<in> set (findall L p text)"
  have "\<And>s r g. (r, g) \<in> set (rmatch L p s) \<Longrightarrow> length g \<le> 1"
    using rmatch_group_free [OF gf] by fastforce
  then show ?thesis
    using m findall_from_strings unfolding findall_def by metis
qed

lemma fact_patterns_one_group:
  "p \<in> set fact_patterns \<Longrightarrow> \<exists>q. p = Grp q \<and> group_free q"
  by (auto simp add: fact_patterns_def digits_def)

lemma fact_matches_are_strings:
  "p \<in> set fact_patterns \<Longrightarrow> m \<in> set (findall L p text) \<Longrightarrow> \<exists>t. m = Str t"
  using fact_patterns_one_group findall_group_strings by blast

lemma id_matches_are_strings:
  "m \<in> set (findall L digits1 text) \<Longrightarrow> \<exists>t. m = Str t"
  by (rule findall_group_free_strings [of digits1]) (simp_all add: digits1_def)

subsection \<open>Calendar: deleting an event\<close>

lemma pop_event_None: "pop_event n es = None \<longleftrightarrow> n \<notin> ev_id ` set es"
  by (induction es) (auto split: option.splits)

text \<open>
  A delete request whose first integer is not zero and is the id of no stored event
  gets the not-found message, and the calendar is unchanged.
\<close>

lemma delete_event_not_found:
  "extract_id L user_input = Inr (Some n) \<Longrightarrow> n \<noteq> 0 \<Longrightarrow> n \<notin> ev_id ` set (events cal) \<Longrightarrow>
     delete_event L user_input cal = Inr (event_not_found n, cal)"
  using pop_event_None [of n "events cal"]
  by (simp add: delete_event_def truthy_def)

text \<open>A delete request without a digit gets the no-id message, and the calendar is unchanged.\<close>

lemma delete_event_no_integer:
  "findall L digits1 user_input = [] \<Longrightarrow>
     delete_event L user_input cal = Inr (no_event_id, cal)"
  by (simp add: delete_event_def truthy_def extract_id_def)

lemma delete_event_zero:
  "extract_id L user_input = Inr (Some 0) \<Longrightarrow>
     delete_event L user_input cal = Inr (no_event_id, cal)"
  by (simp add: delete_event_def truthy_def)

lemma delete_messages_differ: "event_not_found n \<noteq> no_event_id"
  by (simp add: event_not_found_def no_event_id_def u_def)

text \<open>
  The only exception is the ValueError of \<open>int()\<close> on a run of digits that is longer
  than the interpreter's limit; without a limit there is none.
\<close>

lemma extract_id_raises:
  "extract_id L text = Inl e \<longleftrightarrow>
     e = ValueError \<and> (\<exists>s rest. findall L digits1 text = Str s # rest
        \<and> 0 < max_str_digits L \<and> max_str_digits L < length s)"
  by (auto simp add: extract_id_def py_int_def split: list.splits sval.splits if_splits)

lemma delete_event_raises:
  "delete_event L user_input cal = Inl e \<longleftrightarrow> extract_id L user_input = Inl e"
  by (simp add: delete_event_def split: sum.splits)

lemmas calendar_eval =
  detect_schedule_intent_def add_keywords_def view_keywords_def delete_keywords_def
  update_keywords_def any_in_def extract_id_def py_int_def findall_def digits1_def in_set_def
  findall_item_def int_of_digits_def basic_lib_def basic_digit_def ascii_lower_def u_def
  Let_def init_calendar_def

text \<open>
  C6. The two failures of a delete request are worded separately and neither changes
  the calendar (lemmas \<open>delete_event_not_found\<close>, \<open>delete_event_no_integer\<close>,
  \<open>delete_messages_differ\<close>), but the test \<open>if event_id:\<close> takes the integer 0 for a
  missing id. The request U+522A U+9664 U+4E8B U+4EF6 followed by the digit 0 ("delete
  event 0") is a delete request, its first integer is 0, and no event has the id 0 (the
  calendar is empty, and ids are counted from 1); the answer is the message for a
  request without an id, not the not-found message. The calendar is unchanged.
\<close>

theorem delete_event_id_zero:
  "detect_schedule_intent basic_lib ([0x522A, 0x9664, 0x4E8B, 0x4EF6] @ u ''0'') = u ''delete''
   \<and> extract_id basic_lib ([0x522A, 0x9664, 0x4E8B, 0x4EF6] @ u ''0'') = Inr (Some 0)
   \<and> events init_calendar = []
   \<and> delete_event basic_lib ([0x522A, 0x9664, 0x4E8B, 0x4EF6] @ u ''0'') init_calendar
       = Inr (no_event_id, init_calendar)
   \<and> no_event_id \<noteq> event_not_found 0"
  by (simp add: calendar_eval delete_event_def truthy_def no_event_id_def event_not_found_def
        str_int_def)

subsection \<open>Email: reading an entry by its id\<close>

lemma mark_read_apart:
  "map (\<lambda>e. e\<lparr>e_read := True\<rparr>) (mark_read n mb) = map (\<lambda>e. e\<lparr>e_read := True\<rparr>) mb"
  by (induction mb) simp_all

lemma read_emails_mailbox:
  "read_emails L user_input mb = Inr (text, mb') \<Longrightarrow>
     mb' = mb \<or> (\<exists>k. mb' = mark_read k mb)"
  by (auto simp add: read_emails_def Let_def split: sum.splits option.splits prod.splits
      if_splits)

lemma mailbox_state_apart:
  "mailbox_state L mb \<Longrightarrow>
     map (\<lambda>e. e\<lparr>e_read := True\<rparr>) mb = map (\<lambda>e. e\<lparr>e_read := True\<rparr>) mock_emails"
proof (induction rule: mailbox_state.induct)
  case initial
  show ?case by simp
next
  case (read mailbox user_input t mailbox')
  show ?case
    using read.IH read_emails_mailbox [OF read.hyps(2)] mark_read_apart
    by metis
qed

lemma mailbox_state_ids:
  assumes "mailbox_state L mb"
  shows "map e_id mb = [1, 2, 3]"
proof -
  have "map e_id mb = map e_id (map (\<lambda>e. e\<lparr>e_read := True\<rparr>) mb)"
    by simp
  also have "\<dots> = map e_id (map (\<lambda>e. e\<lparr>e_read := True\<rparr>) mock_emails)"
    using mailbox_state_apart [OF assms] by simp
  also have "\<dots> = [1, 2, 3]"
    by (simp add: mock_emails_def)
  finally show ?thesis .
qed

lemma find_email_by_id_Some:
  "n \<in> e_id ` set mb \<Longrightarrow> \<exists>e. find_email_by_id n mb = Some e \<and> e_id e = n \<and> e \<in> set mb"
  by (induction mb) auto

lemma mark_read_map:
  "distinct (map e_id mb) \<Longrightarrow>
     mark_read n mb = map (\<lambda>e. if e_id e = n then e\<lparr>e_read := True\<rparr> else e) mb"
proof (induction mb)
  case Nil
  show ?case by simp
next
  case (Cons a mb)
  show ?case
  proof (cases "e_id a = n")
    case True
    then have "\<forall>e \<in> set mb. e_id e \<noteq> n"
      using Cons.prems by (auto simp add: image_iff)
    then have "map (\<lambda>e. if e_id e = n then e\<lparr>e_read := True\<rparr> else e) mb = mb"
      by (simp add: map_idI)
    then show ?thesis using True by simp
  next
    case False
    then show ?thesis using Cons by simp
  qed
qed

lemma find_email_mark_read:
  "find_email_by_id n mb = Some e \<Longrightarrow>
     find_email_by_id n (mark_read n mb) = Some (e\<lparr>e_read := True\<rparr>)"
  by (induction mb) (auto split: if_splits)

lemma mark_read_idem: "mark_read n (mark_read n mb) = mark_read n mb"
  by (induction mb) simp_all

lemma read_emails_found:
  "extract_id L user_input = Inr (Some n) \<Longrightarrow> n \<noteq> 0 \<Longrightarrow> find_email_by_id n mb = Some e \<Longrightarrow>
     read_emails L user_input mb
       = Inr (format_single_email (e\<lparr>e_read := True\<rparr>), mark_read n mb)"
  by (simp add: read_emails_def truthy_def)

text \<open>The text of \<open>_format_single_email\<close>, written out.\<close>

lemma format_single_email_text:
  "format_single_email email =
               [0x1F4E7] @ u '' **'' @ [0x90F5, 0x4EF6, 0x8A73, 0x60C5] @ u ''**''
               @ [0xA, 0xA, 0x1F4CB] @ u '' **'' @ [0x4E3B, 0x65E8] @ u ''**: '' @ e_subject email
               @ [0xA, 0x1F4E4] @ u '' **'' @ [0x5BC4, 0x4EF6, 0x8005] @ u ''**: '' @ e_from email
               @ [0xA, 0x1F4E5] @ u '' **'' @ [0x6536, 0x4EF6, 0x8005] @ u ''**: '' @ e_to email
               @ [0xA, 0x1F4C5] @ u '' **'' @ [0x65E5, 0x671F] @ u ''**: '' @ e_date email
               @ [0xA, 0x26A1] @ u '' **'' @ [0x512A, 0x5148, 0x7D1A] @ u ''**: ''
               @ (if e_priority email = u ''urgent'' then [0x1F534] @ u '' '' @ [0x7DCA, 0x6025]
                  else if e_priority email = u ''high'' then [0x1F7E1] @ u '' '' @ [0x91CD, 0x8981]
                  else [0x1F7E2] @ u '' '' @ [0x4E00, 0x822C])
               @ [0xA, 0xA, 0x1F4DD] @ u '' **'' @ [0x5167, 0x5BB9] @ u ''**:'' @ [0xA]
               @ e_body email @ [0xA, 0xA] @ u ''---'' @ [0xA, 0x1F4A1] @ u '' **''
               @ [0x64CD, 0x4F5C, 0x5EFA, 0x8B70] @ u ''**: '' @ [0xA, 0x2022] @ u '' ''
               @ [0x56DE, 0x8986, 0x6B64, 0x90F5, 0x4EF6, 0xFF1A, 0x300C, 0x56DE, 0x8986, 0x90F5]
               @ [0x4EF6] @ str_int (e_id email) @ [0x300D, 0xA, 0x2022] @ u '' ''
               @ [0x6A19, 0x8A18, 0x70BA, 0x91CD, 0x8981, 0xFF1A, 0x300C, 0x6A19, 0x8A18, 0x90F5]
               @ [0x4EF6] @ str_int (e_id email) @ [0x70BA, 0x91CD, 0x8981, 0x300D]"
  by (simp add: format_single_email_def single_priority_icon_def u_def)

text \<open>
  C7. In every state of the mailbox, a read request whose first integer is the id of a
  mailbox entry returns the formatted record of that entry (the one
  \<open>_find_email_by_id\<close> finds; exactly one entry has the id): the text of
  \<open>_format_single_email\<close> with the subject, sender, recipient, date, priority, body and
  id of the entry. It sets the \<open>read\<close> field of that entry to \<open>True\<close>: the mailbox
  afterwards is the mailbox before with \<open>read := True\<close> at the entry with the id, every
  other field of that entry and every other entry as before. A second read of the same
  request, on the mailbox in which the entry is read, returns the same text and leaves
  that mailbox as it is.
\<close>

theorem read_email_by_id:
  assumes "mailbox_state L mailbox"
    and "extract_id L user_input = Inr (Some n)"
    and "n \<in> e_id ` set mailbox"
  shows "\<exists>email. find_email_by_id n mailbox = Some email \<and> e_id email = n
           \<and> email \<in> set mailbox
           \<and> length (filter (\<lambda>e. e_id e = n) mailbox) = 1
           \<and> read_emails L user_input mailbox =
               Inr (
               [0x1F4E7] @ u '' **'' @ [0x90F5, 0x4EF6, 0x8A73, 0x60C5] @ u ''**''
               @ [0xA, 0xA, 0x1F4CB] @ u '' **'' @ [0x4E3B, 0x65E8] @ u ''**: '' @ e_subject email
               @ [0xA, 0x1F4E4] @ u '' **'' @ [0x5BC4, 0x4EF6, 0x8005] @ u ''**: '' @ e_from email
               @ [0xA, 0x1F4E5] @ u '' **'' @ [0x6536, 0x4EF6, 0x8005] @ u ''**: '' @ e_to email
               @ [0xA, 0x1F4C5] @ u '' **'' @ [0x65E5, 0x671F] @ u ''**: '' @ e_date email
               @ [0xA, 0x26A1] @ u '' **'' @ [0x512A, 0x5148, 0x7D1A] @ u ''**: ''
               @ (if e_priority email = u ''urgent'' then [0x1F534] @ u '' '' @ [0x7DCA, 0x6025]
                  else if e_priority email = u ''high'' then [0x1F7E1] @ u '' '' @ [0x91CD, 0x8981]
                  else [0x1F7E2] @ u '' '' @ [0x4E00, 0x822C])
               @ [0xA, 0xA, 0x1F4DD] @ u '' **'' @ [0x5167, 0x5BB9] @ u ''**:'' @ [0xA]
               @ e_body email @ [0xA, 0xA] @ u ''---'' @ [0xA, 0x1F4A1] @ u '' **''
               @ [0x64CD, 0x4F5C, 0x5EFA, 0x8B70] @ u ''**: '' @ [0xA, 0x2022] @ u '' ''
               @ [0x56DE, 0x8986, 0x6B64, 0x90F5, 0x4EF6, 0xFF1A, 0x300C, 0x56DE, 0x8986, 0x90F5]
               @ [0x4EF6] @ str_int (e_id email) @ [0x300D, 0xA, 0x2022] @ u '' ''
               @ [0x6A19, 0x8A18, 0x70BA, 0x91CD, 0x8981, 0xFF1A, 0x300C, 0x6A19, 0x8A18, 0x90F5]
               @ [0x4EF6] @ str_int (e_id email) @ [0x70BA, 0x91CD, 0x8981, 0x300D],
                    map (\<lambda>e. if e_id e = n then e\<lparr>e_read := True\<rparr> else e) mailbox)
           \<and> read_emails L user_input
                 (map (\<lambda>e. if e_id e = n then e\<lparr>e_read := True\<rparr> else e) mailbox)
               = read_emails L user_input mailbox"
proof -
  have ids: "map e_id mailbox = [1, 2, 3]"
    using mailbox_state_ids [OF assms(1)] .
  have "e_id ` set mailbox = set (map e_id mailbox)"
    by simp
  then have mem: "n \<in> {1, 2, 3}"
    using assms(3) ids by simp
  then have n0: "n \<noteq> 0"
    by auto
  have dist: "distinct (map e_id mailbox)"
    using ids by simp
  obtain email where e: "find_email_by_id n mailbox = Some email" "e_id email = n"
      "email \<in> set mailbox"
    using find_email_by_id_Some [OF assms(3)] by blast
  have fmt: "format_single_email (email\<lparr>e_read := True\<rparr>) = format_single_email email"
    by (simp add: format_single_email_def)
  have first: "read_emails L user_input mailbox
                 = Inr (format_single_email email, mark_read n mailbox)"
    using read_emails_found [OF assms(2) n0 e(1)] fmt by simp
  have second: "read_emails L user_input (mark_read n mailbox)
                  = Inr (format_single_email email, mark_read n mailbox)"
    using read_emails_found [OF assms(2) n0 find_email_mark_read [OF e(1)]] fmt
    by (simp add: mark_read_idem format_single_email_def)
  have "length (filter (\<lambda>e. e_id e = n) mailbox) = length (filter (\<lambda>i. i = n) (map e_id mailbox))"
    by (simp add: filter_map comp_def)
  also have "\<dots> = 1"
    using mem ids by auto
  finally have one: "length (filter (\<lambda>e. e_id e = n) mailbox) = 1" .
  have m: "mark_read n mailbox
             = map (\<lambda>e. if e_id e = n then e\<lparr>e_read := True\<rparr> else e) mailbox"
    using mark_read_map [OF dist] .
  show ?thesis
    using e one first [unfolded m format_single_email_text]
      second [unfolded m format_single_email_text] first [unfolded m]
    by (intro exI [of _ email]) simp
qed

lemmas email_eval =
  extract_id_def py_int_def findall_def digits1_def in_set_def findall_item_def
  int_of_digits_def basic_lib_def basic_digit_def u_def Let_def

text \<open>
  The theorem on the mailbox of the constructor and the request U+67E5 U+770B U+90F5
  U+4EF6 followed by the digit 1 ("show mail 1"): the first entry, unread before, is
  returned and is read afterwards, the other two entries are as before, and the second
  read returns the same text and the same mailbox.
\<close>

theorem read_email_by_id_witness:
  "mailbox_state basic_lib mock_emails
   \<and> extract_id basic_lib ([0x67E5, 0x770B, 0x90F5, 0x4EF6] @ u ''1'') = Inr (Some 1)
   \<and> 1 \<in> e_id ` set mock_emails
   \<and> e_read (mock_emails ! 0) = False
   \<and> read_emails basic_lib ([0x67E5, 0x770B, 0x90F5, 0x4EF6] @ u ''1'') mock_emails
       = Inr (
          [0x1F4E7] @ u '' **'' @ [0x90F5, 0x4EF6, 0x8A73, 0x60C5] @ u ''**''
          @ [0xA, 0xA, 0x1F4CB] @ u '' **'' @ [0x4E3B, 0x65E8] @ u ''**: ''
          @ [0x9031, 0x6703, 0x8B70, 0x7A0B, 0x78BA, 0x8A8D, 0xA, 0x1F4E4] @ u '' **''
          @ [0x5BC4, 0x4EF6, 0x8005] @ u ''**: john.doe@company.com'' @ [0xA, 0x1F4E5] @ u '' **''
          @ [0x6536, 0x4EF6, 0x8005] @ u ''**: user@email.com'' @ [0xA, 0x1F4C5] @ u '' **''
          @ [0x65E5, 0x671F] @ u ''**: 2024-06-11'' @ [0xA, 0x26A1] @ u '' **''
          @ [0x512A, 0x5148, 0x7D1A] @ u ''**: '' @ [0x1F7E2] @ u '' ''
          @ [0x4E00, 0x822C, 0xA, 0xA, 0x1F4DD] @ u '' **'' @ [0x5167, 0x5BB9] @ u ''**:''
          @ [0xA, 0x8ACB, 0x78BA, 0x8A8D, 0x660E, 0x5929, 0x7684, 0x9031, 0x6703, 0x8B70]
          @ [0x7A0B, 0xFF0C, 0x6703, 0x8B70, 0x6642, 0x9593, 0x662F, 0x4E0A, 0x5348] @ u ''10''
          @ [0x9EDE, 0x3002, 0xA, 0xA] @ u ''---'' @ [0xA, 0x1F4A1] @ u '' **''
          @ [0x64CD, 0x4F5C, 0x5EFA, 0x8B70] @ u ''**: '' @ [0xA, 0x2022] @ u '' ''
          @ [0x56DE, 0x8986, 0x6B64, 0x90F5, 0x4EF6, 0xFF1A, 0x300C, 0x56DE, 0x8986, 0x90F5]
          @ [0x4EF6] @ u ''1'' @ [0x300D, 0xA, 0x2022] @ u '' ''
          @ [0x6A19, 0x8A18, 0x70BA, 0x91CD, 0x8981, 0xFF1A, 0x300C, 0x6A19, 0x8A18, 0x90F5]
          @ [0x4EF6] @ u ''1'' @ [0x70BA, 0x91CD, 0x8981, 0x300D],
          [(mock_emails ! 0)\<lparr>e_read := True\<rparr>, mock_emails ! 1, mock_emails ! 2])
   \<and> read_emails basic_lib ([0x67E5, 0x770B, 0x90F5, 0x4EF6] @ u ''1'')
         [(mock_emails ! 0)\<lparr>e_read := True\<rparr>, mock_emails ! 1, mock_emails ! 2]
       = Inr (
          [0x1F4E7] @ u '' **'' @ [0x90F5, 0x4EF6, 0x8A73, 0x60C5] @ u ''**''
          @ [0xA, 0xA, 0x1F4CB] @ u '' **'' @ [0x4E3B, 0x65E8] @ u ''**: ''
          @ [0x9031, 0x6703, 0x8B70, 0x7A0B, 0x78BA, 0x8A8D, 0xA, 0x1F4E4] @ u '' **''
          @ [0x5BC4, 0x4EF6, 0x8005] @ u ''**: john.doe@company.com'' @ [0xA, 0x1F4E5] @ u '' **''
          @ [0x6536, 0x4EF6, 0x8005] @ u ''**: user@email.com'' @ [0xA, 0x1F4C5] @ u '' **''
          @ [0x65E5, 0x671F] @ u ''**: 2024-06-11'' @ [0xA, 0x26A1] @ u '' **''
          @ [0x512A, 0x5148, 0x7D1A] @ u ''**: '' @ [0x1F7E2] @ u '' ''
          @ [0x4E00, 0x822C, 0xA, 0xA, 0x1F4DD] @ u '' **'' @ [0x5167, 0x5BB9] @ u ''**:''
          @ [0xA, 0x8ACB, 0x78BA, 0x8A8D, 0x660E, 0x5929, 0x7684, 0x9031, 0x6703, 0x8B70]
          @ [0x7A0B, 0xFF0C, 0x6703, 0x8B70, 0x6642, 0x9593, 0x662F, 0x4E0A, 0x5348] @ u ''10''
          @ [0x9EDE, 0x3002, 0xA, 0xA] @ u ''---'' @ [0xA, 0x1F4A1] @ u '' **''
          @ [0x64CD, 0x4F5C, 0x5EFA, 0x8B70] @ u ''**: '' @ [0xA, 0x2022] @ u '' ''
          @ [0x56DE, 0x8986, 0x6B64, 0x90F5, 0x4EF6, 0xFF1A, 0x300C, 0x56DE, 0x8986, 0x90F5]
          @ [0x4EF6] @ u ''1'' @ [0x300D, 0xA, 0x2022] @ u '' ''
          @ [0x6A19, 0x8A18, 0x70BA, 0x91CD, 0x8981, 0xFF1A, 0x300C, 0x6A19, 0x8A18, 0x90F5]
          @ [0x4EF6] @ u ''1'' @ [0x70BA, 0x91CD, 0x8981, 0x300D],
          [(mock_emails ! 0)\<lparr>e_read := True\<rparr>, mock_emails ! 1, mock_emails ! 2])"
proof -
  let ?input = "[0x67E5, 0x770B, 0x90F5, 0x4EF6] @ u ''1''"
  let ?after = "[(mock_emails ! 0)\<lparr>e_read := True\<rparr>, mock_emails ! 1, mock_emails ! 2]"
  let ?text = "
          [0x1F4E7] @ u '' **'' @ [0x90F5, 0x4EF6, 0x8A73, 0x60C5] @ u ''**''
          @ [0xA, 0xA, 0x1F4CB] @ u '' **'' @ [0x4E3B, 0x65E8] @ u ''**: ''
          @ [0x9031, 0x6703, 0x8B70, 0x7A0B, 0x78BA, 0x8A8D, 0xA, 0x1F4E4] @ u '' **''
          @ [0x5BC4, 0x4EF6, 0x8005] @ u ''**: john.doe@company.com'' @ [0xA, 0x1F4E5] @ u '' **''
          @ [0x6536, 0x4EF6, 0x8005] @ u ''**: user@email.com'' @ [0xA, 0x1F4C5] @ u '' **''
          @ [0x65E5, 0x671F] @ u ''**: 2024-06-11'' @ [0xA, 0x26A1] @ u '' **''
          @ [0x512A, 0x5148, 0x7D1A] @ u ''**: '' @ [0x1F7E2] @ u '' ''
          @ [0x4E00, 0x822C, 0xA, 0xA, 0x1F4DD] @ u '' **'' @ [0x5167, 0x5BB9] @ u ''**:''
          @ [0xA, 0x8ACB, 0x78BA, 0x8A8D, 0x660E, 0x5929, 0x7684, 0x9031, 0x6703, 0x8B70]
          @ [0x7A0B, 0xFF0C, 0x6703, 0x8B70, 0x6642, 0x9593, 0x662F, 0x4E0A, 0x5348] @ u ''10''
          @ [0x9EDE, 0x3002, 0xA, 0xA] @ u ''---'' @ [0xA, 0x1F4A1] @ u '' **''
          @ [0x64CD, 0x4F5C, 0x5EFA, 0x8B70] @ u ''**: '' @ [0xA, 0x2022] @ u '' ''
          @ [0x56DE, 0x8986, 0x6B64, 0x90F5, 0x4EF6, 0xFF1A, 0x300C, 0x56DE, 0x8986, 0x90F5]
          @ [0x4EF6] @ u ''1'' @ [0x300D, 0xA, 0x2022] @ u '' ''
          @ [0x6A19, 0x8A18, 0x70BA, 0x91CD, 0x8981, 0xFF1A, 0x300C, 0x6A19, 0x8A18, 0x90F5]
          @ [0x4EF6] @ u ''1'' @ [0x70BA, 0x91CD, 0x8981, 0x300D]"
  have h1: "mailbox_state basic_lib mock_emails"
    by (rule mailbox_state.initial)
  have h2: "extract_id basic_lib ?input = Inr (Some 1)"
    by (simp add: email_eval)
  have h3: "1 \<in> e_id ` set mock_emails"
    by (simp add: mock_emails_def)
  have f: "find_email_by_id 1 mock_emails = Some (mock_emails ! 0)"
    by (simp add: mock_emails_def)
  have m: "map (\<lambda>e. if e_id e = 1 then e\<lparr>e_read := True\<rparr> else e) mock_emails = ?after"
    by (simp add: mock_emails_def)
  have r: "e_read (mock_emails ! 0) = False"
    by (simp add: mock_emails_def)
  have t: "format_single_email (mock_emails ! 0) = ?text"
    by (simp add: format_single_email_def single_priority_icon_def mock_emails_def str_int_def
        u_def)
  obtain email where e: "find_email_by_id 1 mock_emails = Some email \<and> e_id email = 1
           \<and> email \<in> set mock_emails
           \<and> length (filter (\<lambda>e. e_id e = 1) mock_emails) = 1
           \<and> read_emails basic_lib ?input mock_emails =
               Inr (
               [0x1F4E7] @ u '' **'' @ [0x90F5, 0x4EF6, 0x8A73, 0x60C5] @ u ''**''
               @ [0xA, 0xA, 0x1F4CB] @ u '' **'' @ [0x4E3B, 0x65E8] @ u ''**: '' @ e_subject email
               @ [0xA, 0x1F4E4] @ u '' **'' @ [0x5BC4, 0x4EF6, 0x8005] @ u ''**: '' @ e_from email
               @ [0xA, 0x1F4E5] @ u '' **'' @ [0x6536, 0x4EF6, 0x8005] @ u ''**: '' @ e_to email
               @ [0xA, 0x1F4C5] @ u '' **'' @ [0x65E5, 0x671F] @ u ''**: '' @ e_date email
               @ [0xA, 0x26A1] @ u '' **'' @ [0x512A, 0x5148, 0x7D1A] @ u ''**: ''
               @ (if e_priority email = u ''urgent'' then [0x1F534] @ u '' '' @ [0x7DCA, 0x6025]
                  else if e_priority email = u ''high'' then [0x1F7E1] @ u '' '' @ [0x91CD, 0x8981]
                  else [0x1F7E2] @ u '' '' @ [0x4E00, 0x822C])
               @ [0xA, 0xA, 0x1F4DD] @ u '' **'' @ [0x5167, 0x5BB9] @ u ''**:'' @ [0xA]
               @ e_body email @ [0xA, 0xA] @ u ''---'' @ [0xA, 0x1F4A1] @ u '' **''
               @ [0x64CD, 0x4F5C, 0x5EFA, 0x8B70] @ u ''**: '' @ [0xA, 0x2022] @ u '' ''
               @ [0x56DE, 0x8986, 0x6B64, 0x90F5, 0x4EF6, 0xFF1A, 0x300C, 0x56DE, 0x8986, 0x90F5]
               @ [0x4EF6] @ str_int (e_id email) @ [0x300D, 0xA, 0x2022] @ u '' ''
               @ [0x6A19, 0x8A18, 0x70BA, 0x91CD, 0x8981, 0xFF1A, 0x300C, 0x6A19, 0x8A18, 0x90F5]
               @ [0x4EF6] @ str_int (e_id email) @ [0x70BA, 0x91CD, 0x8981, 0x300D],
                    map (\<lambda>e. if e_id e = 1 then e\<lparr>e_read := True\<rparr> else e) mock_emails)
           \<and> read_emails basic_lib ?input
                 (map (\<lambda>e. if e_id e = 1 then e\<lparr>e_read := True\<rparr> else e) mock_emails)
               = read_emails basic_lib ?input mock_emails"
    using read_email_by_id [OF h1 h2 h3] ..
  have e1: "find_email_by_id 1 mock_emails = Some email"
    using e by (rule conjunct1)
  have eq: "email = mock_emails ! 0"
    using e1 unfolding f by (rule option.inject [THEN iffD1, symmetric])
  have first: "read_emails basic_lib ?input mock_emails = Inr (?text, ?after)"
    using e unfolding eq m format_single_email_text [symmetric] t by (elim conjE)
  have e7: "read_emails basic_lib ?input ?after = read_emails basic_lib ?input mock_emails"
    using e unfolding eq m by (elim conjE)
  have second: "read_emails basic_lib ?input ?after = Inr (?text, ?after)"
    using e7 unfolding first .
  show ?thesis
    using h1 h2 h3 r first second by (intro conjI)
qed

subsection \<open>Tool dispatch\<close>

text \<open>
  The tools of \<open>logged A\<close> do what the tools of \<open>A\<close> do: the text and the state of the
  tools are those of \<open>A\<close>, and the log grows by the call made, if any.
\<close>

lemma use_tool_logged:
  "use_tool (logged A) name i s (st, cs) =
     (fst (use_tool A name i s st), snd (use_tool A name i s st),
      cs @ (if name = u ''weather'' then
               (case weather_tool A of
                  None \<Rightarrow> []
                | Some w \<Rightarrow> [Get_weather (case dict_get (entities i) (u ''city'') of
                                           None \<Rightarrow> Str [0x53F0, 0x5317] | Some c \<Rightarrow> c)])
             else if name = u ''calendar'' then [Manage_schedule s (entities i)]
             else if name = u ''email'' then [Process_email s]
             else []))"
  by (simp add: use_tool_def logged_def guarded_def Let_def split: option.splits sum.splits)

lemma build_context_logged:
  "build_context (logged A) i s h now (st, cs) =
     (fst (build_context A i s h now st), snd (build_context A i s h now st),
      cs @ (if itype i \<noteq> u ''general'' \<and> 1 / 2 < confidence i then
               (if itype i = u ''weather'' then
                  (case weather_tool A of
                     None \<Rightarrow> []
                   | Some w \<Rightarrow> [Get_weather (case dict_get (entities i) (u ''city'') of
                                              None \<Rightarrow> Str [0x53F0, 0x5317] | Some c \<Rightarrow> c)])
                else if itype i = u ''calendar'' then [Manage_schedule s (entities i)]
                else if itype i = u ''email'' then [Process_email s]
                else [])
             else []))"
  by (simp add: build_context_def use_tool_logged Let_def split: prod.splits)

lemma invocations_eq:
  "invocations A i s h now st =
     (if itype i \<noteq> u ''general'' \<and> 1 / 2 < confidence i then
        (if itype i = u ''weather'' then
           (case weather_tool A of
              None \<Rightarrow> []
            | Some w \<Rightarrow> [Get_weather (case dict_get (entities i) (u ''city'') of
                                       None \<Rightarrow> Str [0x53F0, 0x5317] | Some c \<Rightarrow> c)])
         else if itype i = u ''calendar'' then [Manage_schedule s (entities i)]
         else if itype i = u ''email'' then [Process_email s]
         else [])
      else [])"
  by (simp add: invocations_def build_context_logged)

lemma build_context_no_dispatch:
  "\<not> (itype i \<noteq> u ''general'' \<and> 1 / 2 < confidence i) \<Longrightarrow>
     build_context A i s h now st =
       ([0x7576, 0x524D, 0x6642, 0x9593, 0xFF1A] @ now @ [0x0A] @ history_lines h, st)"
  by (auto simp add: build_context_def Let_def)

lemma build_context_not_configured:
  "itype i = u ''weather'' \<Longrightarrow> 1 / 2 < confidence i \<Longrightarrow> weather_tool A = None \<Longrightarrow>
     build_context A i s h now st =
       ([0x7576, 0x524D, 0x6642, 0x9593, 0xFF1A] @ now @ [0x0A]
        @ [0xA, 0x5DE5, 0x5177, 0x57F7, 0x884C, 0x7D50, 0x679C, 0xFF1A, 0xA]
        @ [0x274C] @ u '' weather '' @ [0x5DE5, 0x5177, 0x5C1A, 0x672A, 0x914D, 0x7F6E] @ [0x0A]
        @ history_lines h, st)"
  by (simp add: build_context_def use_tool_def not_configured_def u_def Let_def)

text \<open>
  What \<open>process_request\<close> does to the tools is what the building of the context for
  the classified input does; a blank input is answered without classification.
\<close>

lemma process_request_state:
  "snd (process_request A L s ms h now st) =
     (if str_strip L s = [] then st else snd (build_context A (detect_intent L s) s h now st))"
  by (simp add: process_request_def Let_def split: prod.splits)

text \<open>
  C4. For every intent, a tool method is invoked while the context is built if and only
  if the type of the intent is not \<open>general\<close>, the confidence is strictly greater than
  0.5, and a tool is configured for the type: the calendar and email tools always are,
  the weather tool only if the assistant was created with a weather key. At most one
  method is invoked: \<open>get_weather\<close> with the city of the intent (Taibei if it has none),
  \<open>manage_schedule\<close> with the input and the entities, or \<open>process_email\<close> with the
  input. The instrumented tools change neither the context nor the state of the tools.
  At a confidence of exactly 0.5 nothing is dispatched: the context consists of the
  time line and the recent conversation only, with no tool-result section, and the
  state of the tools is unchanged. When the gate is passed by a weather intent and
  there is no weather tool, no tool runs and the tool-result section holds the notice
  that the weather tool is not configured.
\<close>

theorem dispatch_gate:
  "(invocations A i s h now st \<noteq> [] \<longleftrightarrow>
      itype i \<noteq> u ''general'' \<and> 1 / 2 < confidence i
      \<and> (itype i = u ''weather'' \<and> weather_tool A \<noteq> None
          \<or> itype i = u ''calendar'' \<or> itype i = u ''email''))
   \<and> invocations A i s h now st =
       (if itype i \<noteq> u ''general'' \<and> 1 / 2 < confidence i then
          (if itype i = u ''weather'' then
             (case weather_tool A of
                None \<Rightarrow> []
              | Some w \<Rightarrow> [Get_weather (case dict_get (entities i) (u ''city'') of
                                         None \<Rightarrow> Str [0x53F0, 0x5317] | Some c \<Rightarrow> c)])
           else if itype i = u ''calendar'' then [Manage_schedule s (entities i)]
           else if itype i = u ''email'' then [Process_email s]
           else [])
        else [])
   \<and> fst (build_context (logged A) i s h now (st, [])) = fst (build_context A i s h now st)
   \<and> fst (snd (build_context (logged A) i s h now (st, []))) = snd (build_context A i s h now st)
   \<and> (confidence i = 1 / 2 \<longrightarrow>
        build_context A i s h now st =
          ([0x7576, 0x524D, 0x6642, 0x9593, 0xFF1A] @ now @ [0x0A] @ history_lines h, st))
   \<and> (itype i = u ''weather'' \<and> 1 / 2 < confidence i \<and> weather_tool A = None \<longrightarrow>
        build_context A i s h now st =
          ([0x7576, 0x524D, 0x6642, 0x9593, 0xFF1A] @ now @ [0x0A]
           @ [0xA, 0x5DE5, 0x5177, 0x57F7, 0x884C, 0x7D50, 0x679C, 0xFF1A, 0xA]
           @ [0x274C] @ u '' weather '' @ [0x5DE5, 0x5177, 0x5C1A, 0x672A, 0x914D, 0x7F6E]
           @ [0x0A] @ history_lines h, st))"
proof -
  have ne: "u ''weather'' \<noteq> u ''general''" "u ''calendar'' \<noteq> u ''general''"
      "u ''email'' \<noteq> u ''general''" "u ''calendar'' \<noteq> u ''weather''"
      "u ''email'' \<noteq> u ''weather''" "u ''email'' \<noteq> u ''calendar''"
    by (simp_all add: u_def)
  have iff: "invocations A i s h now st \<noteq> [] \<longleftrightarrow>
      itype i \<noteq> u ''general'' \<and> 1 / 2 < confidence i
      \<and> (itype i = u ''weather'' \<and> weather_tool A \<noteq> None
          \<or> itype i = u ''calendar'' \<or> itype i = u ''email'')"
    using ne by (auto simp add: invocations_eq split: option.splits)
  have c: "confidence i = 1 / 2 \<longrightarrow>
        build_context A i s h now st =
          ([0x7576, 0x524D, 0x6642, 0x9593, 0xFF1A] @ now @ [0x0A] @ history_lines h, st)"
    using build_context_no_dispatch [of i A s h now st] by simp
  show ?thesis
    using iff c invocations_eq [of A i s h now st] build_context_logged [of A i s h now st "[]"]
      build_context_not_configured [of i A s h now st]
    by simp
qed

text \<open>
  The theorem for the assistant without weather tool: at a weather intent of confidence
  exactly 0.5 nothing is dispatched; at the calendar intent of the input "meeting" the
  calendar tool is invoked once; at a weather intent of confidence 0.8 the gate is
  passed, no tool is invoked and the context holds the notice.
\<close>

theorem dispatch_gate_witness:
  "confidence \<lparr>itype = u ''weather'', confidence = 1 / 2, entities = []\<rparr> = 1 / 2
   \<and> build_context assistant_without_weather
        \<lparr>itype = u ''weather'', confidence = 1 / 2, entities = []\<rparr>
        (u ''weather'') None (u ''2024-06-11 10:00:00'') 0
      = ([0x7576, 0x524D, 0x6642, 0x9593, 0xFF1A] @ u ''2024-06-11 10:00:00'' @ [0x0A], 0)
   \<and> invocations assistant_without_weather
        \<lparr>itype = u ''weather'', confidence = 1 / 2, entities = []\<rparr>
        (u ''weather'') None (u ''2024-06-11 10:00:00'') 0 = []
   \<and> detect_intent basic_lib (u ''meeting'')
      = \<lparr>itype = u ''calendar'', confidence = 7 / 10, entities = []\<rparr>
   \<and> invocations assistant_without_weather (detect_intent basic_lib (u ''meeting''))
        (u ''meeting'') None (u ''2024-06-11 10:00:00'') 0
      = [Manage_schedule (u ''meeting'') []]
   \<and> snd (build_context assistant_without_weather (detect_intent basic_lib (u ''meeting''))
        (u ''meeting'') None (u ''2024-06-11 10:00:00'') 0) = 1
   \<and> itype \<lparr>itype = u ''weather'', confidence = 8 / 10, entities = []\<rparr> = u ''weather''
   \<and> 1 / 2 < confidence \<lparr>itype = u ''weather'', confidence = 8 / 10, entities = []\<rparr>
   \<and> weather_tool assistant_without_weather = None
   \<and> build_context assistant_without_weather
        \<lparr>itype = u ''weather'', confidence = 8 / 10, entities = []\<rparr>
        (u ''weather'') None (u ''2024-06-11 10:00:00'') 0
      = ([0x7576, 0x524D, 0x6642, 0x9593, 0xFF1A] @ u ''2024-06-11 10:00:00'' @ [0x0A]
         @ [0xA, 0x5DE5, 0x5177, 0x57F7, 0x884C, 0x7D50, 0x679C, 0xFF1A, 0xA]
         @ [0x274C] @ u '' weather '' @ [0x5DE5, 0x5177, 0x5C1A, 0x672A, 0x914D, 0x7F6E]
         @ [0x0A], 0)"
proof -
  let ?A = assistant_without_weather
  let ?now = "u ''2024-06-11 10:00:00''"
  let ?half = "\<lparr>itype = u ''weather'', confidence = 1 / 2, entities = []\<rparr>"
  let ?w = "\<lparr>itype = u ''weather'', confidence = 8 / 10, entities = []\<rparr>"
  let ?m = "detect_intent basic_lib (u ''meeting'')"
  have d: "?m = \<lparr>itype = u ''calendar'', confidence = 7 / 10, entities = []\<rparr>"
    by (simp add: intent_eval)
  have ne: "u ''calendar'' \<noteq> u ''general''" "u ''calendar'' \<noteq> u ''weather''"
      "u ''weather'' \<noteq> u ''general''"
    by (simp_all add: u_def)
  have none: "weather_tool ?A = None"
    by (simp add: assistant_without_weather_def)
  have hl: "history_lines None = []"
    by (simp add: history_lines_def)
  have a1: "build_context ?A ?half (u ''weather'') None ?now 0
              = ([0x7576, 0x524D, 0x6642, 0x9593, 0xFF1A] @ ?now @ [0x0A], 0)"
    using dispatch_gate [of ?A ?half "u ''weather''" None ?now 0] hl by simp
  have a2: "invocations ?A ?half (u ''weather'') None ?now 0 = []"
    using dispatch_gate [of ?A ?half "u ''weather''" None ?now 0] by simp
  have a3: "invocations ?A ?m (u ''meeting'') None ?now 0 = [Manage_schedule (u ''meeting'') []]"
    using dispatch_gate [of ?A ?m "u ''meeting''" None ?now 0] ne unfolding d by simp
  have a4: "snd (build_context ?A ?m (u ''meeting'') None ?now 0) = 1"
    unfolding d using ne
    by (simp add: build_context_def use_tool_def guarded_def assistant_without_weather_def
        count_calendar_def Let_def)
  have a5: "build_context ?A ?w (u ''weather'') None ?now 0
              = ([0x7576, 0x524D, 0x6642, 0x9593, 0xFF1A] @ ?now @ [0x0A]
                 @ [0xA, 0x5DE5, 0x5177, 0x57F7, 0x884C, 0x7D50, 0x679C, 0xFF1A, 0xA]
                 @ [0x274C] @ u '' weather '' @ [0x5DE5, 0x5177, 0x5C1A, 0x672A, 0x914D, 0x7F6E]
                 @ [0x0A], 0)"
    using dispatch_gate [of ?A ?w "u ''weather''" None ?now 0] none hl by simp
  show ?thesis
    using a1 a2 a3 a4 a5 d none by simp
qed

text \<open>
  The claim as stated fails for the assistant without weather tool on the input
  "weather": the input is classified as \<open>weather\<close> with confidence 0.8, so the type is
  not \<open>general\<close> and the confidence is greater than 0.5, and no tool method is invoked;
  the state of the tools is unchanged.
\<close>

theorem dispatch_gate_counterexample:
  "itype (detect_intent basic_lib (u ''weather'')) \<noteq> u ''general''
   \<and> 1 / 2 < confidence (detect_intent basic_lib (u ''weather''))
   \<and> invocations assistant_without_weather (detect_intent basic_lib (u ''weather''))
        (u ''weather'') None (u ''2024-06-11 10:00:00'') 0 = []
   \<and> snd (process_request assistant_without_weather basic_lib (u ''weather'') None None
             (u ''2024-06-11 10:00:00'') 0) = 0"
proof -
  have d: "detect_intent basic_lib (u ''weather'')
             = \<lparr>itype = u ''weather'', confidence = 8 / 10, entities = []\<rparr>"
    by (simp add: intent_eval)
  have ne: "u ''weather'' \<noteq> u ''general''"
    by (simp add: u_def)
  have s: "str_strip basic_lib (u ''weather'') \<noteq> []"
    by (simp add: str_strip_def basic_lib_def basic_space_def u_def)
  show ?thesis
    unfolding d using ne s
    by (simp add: invocations_eq process_request_state d build_context_def use_tool_def
        assistant_without_weather_def Let_def)
qed

subsection \<open>Memory store: statistics\<close>

lemma map_of_dict_set: "map_of (dict_set k v d) = (map_of d)(k \<mapsto> v)"
  by (induction d) (auto simp: fun_eq_iff)

lemma count_category_fold:
  "map_of (foldl count_category acc ms) c =
     (if filter (\<lambda>x. m_category x = c) ms = [] then map_of acc c
      else Some ((case map_of acc c of None \<Rightarrow> 0 | Some n \<Rightarrow> n)
                  + length (filter (\<lambda>x. m_category x = c) ms)))"
  by (induction ms arbitrary: acc)
    (auto simp: count_category_def dict_get_def map_of_dict_set split: option.splits)

text \<open>
  On a store that is not empty the statistics are the five values: the number of
  entries, the number of entries of each category that occurs, the mean importance
  (the float sum of the importances, divided by the number of entries) and the numbers
  of preference kinds and of facts.
\<close>

lemma statistics_nonempty:
  assumes "memories s \<noteq> []"
  shows "\<exists>counts.
      get_memory_statistics L s =
        [(u ''total_memories'', Count (length (memories s))),
         (u ''categories'', Counts counts),
         (u ''average_importance'',
            Mean (float_div L
                    (foldl (\<lambda>acc x. float_add L acc (m_importance x)) (float_of_int L 0)
                       (memories s))
                    (float_of_int L (int (length (memories s)))))),
         (u ''user_preferences_count'', Count (length (user_preferences s))),
         (u ''important_facts_count'', Count (length (important_facts s)))]
      \<and> (\<forall>c. dict_get counts c =
             (if filter (\<lambda>x. m_category x = c) (memories s) = [] then None
              else Some (length (filter (\<lambda>x. m_category x = c) (memories s)))))"
  using assms
  by (simp add: get_memory_statistics_def Let_def dict_get_def count_category_fold)

text \<open>
  C8. On the empty store \<open>get_memory_statistics\<close> returns three items only: the count
  0, the empty dict of categories and the mean 0.0. The counts of preferences and of
  facts, which the other branch returns, are missing from the result.
\<close>

theorem statistics_empty_store:
  "get_memory_statistics L (init_store 100) =
     [(u ''total_memories'', Count 0), (u ''categories'', Counts []),
      (u ''average_importance'', Mean 0)]
   \<and> dict_get (get_memory_statistics L (init_store 100)) (u ''user_preferences_count'') = None
   \<and> dict_get (get_memory_statistics L (init_store 100)) (u ''important_facts_count'') = None"
  by (simp add: get_memory_statistics_def init_store_def dict_get_def u_def)

subsection \<open>Memory store: retrieval\<close>

lemma keyword_overlap_card:
  "keyword_overlap q k = card (set q \<inter> set k)"
proof -
  have "set (filter (\<lambda>x. x \<in> set k) q) = set q \<inter> set k"
    by auto
  then show ?thesis
    by (simp add: keyword_overlap_def length_remdups_card_conv)
qed

lemma keyword_union_card:
  "keyword_union q k = card (set q \<union> set k)"
  by (simp add: keyword_union_def length_remdups_card_conv)

lemma keyword_overlap_pos:
  "0 < keyword_overlap q k \<longleftrightarrow> set q \<inter> set k \<noteq> {}"
  by (simp add: keyword_overlap_card card_gt_0_iff)

text \<open>The division of the score is never a division by zero.\<close>

lemma keyword_union_pos:
  "0 < keyword_overlap q k \<Longrightarrow> 0 < keyword_union q k"
  by (auto simp add: keyword_overlap_card keyword_union_card card_gt_0_iff)

lemma score_memories_fst:
  "map fst (score_memories L q ms) = filter (\<lambda>x. set q \<inter> set (m_keywords x) \<noteq> {}) ms"
  by (simp add: score_memories_def comp_def keyword_overlap_pos)

lemma score_memories_item:
  assumes "item \<in> set (score_memories L q ms)"
  shows "fst item \<in> set ms \<and> set q \<inter> set (m_keywords (fst item)) \<noteq> {}
       \<and> snd item =
           float_add L
             (float_mul L
                (int_truediv L (int (card (set q \<inter> set (m_keywords (fst item)))))
                   (int (card (set q \<union> set (m_keywords (fst item))))))
                (3152519739159347 / 4503599627370496))
             (float_mul L (m_importance (fst item)) (5404319552844595 / 18014398509481984))"
  using assms
  by (auto simp: score_memories_def relevance_score_def keyword_overlap_pos
      keyword_overlap_card keyword_union_card double_0_7_def double_0_3_def)

lemma format_memories_total:
  assumes "\<forall>item \<in> set items. iso_to_mdhm L (m_timestamp (fst item)) \<noteq> None"
  shows "format_memories L items =
           Inr (map (\<lambda>item. format_memory (the (iso_to_mdhm L (m_timestamp (fst item))))
                               (fst item)) items)"
  using assms by (induction items) auto

lemma top_relevant_take:
  "0 \<le> limit \<Longrightarrow>
     top_relevant L ms query limit =
       take (nat limit) (sort_desc snd (score_memories L (extract_keywords L query) ms))"
  by (simp add: top_relevant_def py_prefix_def)

lemma top_relevant_subset:
  assumes "0 \<le> limit"
  shows "set (top_relevant L ms query limit)
     \<subseteq> set (score_memories L (extract_keywords L query) ms)"
proof
  fix item
  assume "item \<in> set (top_relevant L ms query limit)"
  then have "item \<in> set (sort_desc snd (score_memories L (extract_keywords L query) ms))"
    using assms by (auto simp: top_relevant_def py_prefix_def dest: in_set_takeD)
  then show "item \<in> set (score_memories L (extract_keywords L query) ms)"
    by (simp add: set_sort_desc)
qed

lemma top_relevant_sorted:
  "0 \<le> limit \<Longrightarrow> sorted_wrt (\<lambda>a b. snd b \<le> snd a) (top_relevant L ms query limit)"
  by (simp add: top_relevant_def py_prefix_def sorted_sort_desc)

lemma top_relevant_length:
  "0 \<le> limit \<Longrightarrow>
     length (top_relevant L ms query limit) =
       min (nat limit)
         (length (filter (\<lambda>x. set (extract_keywords L query) \<inter> set (m_keywords x) \<noteq> {}) ms))"
proof -
  assume "0 \<le> limit"
  then have "length (top_relevant L ms query limit) =
               min (nat limit) (length (score_memories L (extract_keywords L query) ms))"
    by (simp add: top_relevant_take length_sort_desc min.commute)
  also have "length (score_memories L (extract_keywords L query) ms) =
               length (map fst (score_memories L (extract_keywords L query) ms))"
    by simp
  finally show ?thesis
    by (simp only: score_memories_fst)
qed

text \<open>
  The entries with a keyword in common that are not returned: every one of them has a
  score that is at most the score of every returned entry.
\<close>

lemma top_relevant_rest:
  assumes "0 \<le> limit"
  shows "\<exists>rest.
      mset (map fst (top_relevant L ms query limit)) + mset (map fst rest)
        = mset (filter (\<lambda>x. set (extract_keywords L query) \<inter> set (m_keywords x) \<noteq> {}) ms)
      \<and> set rest \<subseteq> set (score_memories L (extract_keywords L query) ms)
      \<and> (\<forall>r \<in> set (top_relevant L ms query limit). \<forall>d \<in> set rest. snd d \<le> snd r)"
proof -
  let ?scored = "score_memories L (extract_keywords L query) ms"
  let ?sorted = "sort_desc snd ?scored"
  let ?n = "nat limit"
  have top: "top_relevant L ms query limit = take ?n ?sorted"
    using assms by (rule top_relevant_take)
  have "mset (take ?n ?sorted) + mset (drop ?n ?sorted) = mset ?sorted"
    by (metis append_take_drop_id mset_append)
  then have "mset (take ?n ?sorted) + mset (drop ?n ?sorted) = mset ?scored"
    by (simp add: mset_sort_desc)
  then have "image_mset fst (mset (take ?n ?sorted) + mset (drop ?n ?sorted))
               = image_mset fst (mset ?scored)"
    by simp
  then have parts: "mset (map fst (take ?n ?sorted)) + mset (map fst (drop ?n ?sorted))
               = mset (map fst ?scored)"
    by simp
  have sub: "set (drop ?n ?sorted) \<subseteq> set ?scored"
    using set_drop_subset [of ?n ?sorted] by (simp add: set_sort_desc)
  have dom: "\<forall>r \<in> set (take ?n ?sorted). \<forall>d \<in> set (drop ?n ?sorted). snd d \<le> snd r"
    using sorted_wrt_take_drop [OF sorted_sort_desc [of snd ?scored]] by blast
  show ?thesis
    using parts sub dom unfolding top score_memories_fst by blast
qed

text \<open>
  C2. For a limit \<open>\<ge> 0\<close> and a store whose timestamps are ISO timestamps (as
  \<open>add_memory\<close> writes them), \<open>get_relevant_memories\<close> returns the formatted lines of
  the entries \<open>top_relevant\<close>: at most \<open>limit\<close> of them, and \<open>limit\<close> of them if that
  many entries have a keyword in common with the query; each is an entry of the store
  whose keyword set has a non-empty intersection with the keyword set of the query
  (an entry without a common keyword is never returned, whatever its importance), with
  the score \<open>|intersection| / |union| * 0.7 + importance * 0.3\<close> in the arithmetic
  of floats; they are in descending order of score; and every entry with a common
  keyword that is not returned has a score that is at most the score of every returned
  one.
\<close>

theorem get_relevant_memories_ranked:
  assumes "0 \<le> limit"
    and "\<forall>x \<in> set (memories s). iso_to_mdhm L (m_timestamp x) \<noteq> None"
  shows "get_relevant_memories L s query limit
           = Inr (map (\<lambda>item. format_memory (the (iso_to_mdhm L (m_timestamp (fst item))))
                                 (fst item))
                      (top_relevant L (memories s) query limit))
    \<and> int (length (top_relevant L (memories s) query limit)) \<le> limit
    \<and> length (top_relevant L (memories s) query limit)
        = min (nat limit)
            (length (filter (\<lambda>x. set (extract_keywords L query) \<inter> set (m_keywords x) \<noteq> {})
                       (memories s)))
    \<and> (\<forall>item \<in> set (top_relevant L (memories s) query limit).
          fst item \<in> set (memories s)
          \<and> set (extract_keywords L query) \<inter> set (m_keywords (fst item)) \<noteq> {}
          \<and> snd item =
              float_add L
                (float_mul L
                   (int_truediv L
                      (int (card (set (extract_keywords L query) \<inter> set (m_keywords (fst item)))))
                      (int (card (set (extract_keywords L query) \<union> set (m_keywords (fst item))))))
                   (3152519739159347 / 4503599627370496))
                (float_mul L (m_importance (fst item)) (5404319552844595 / 18014398509481984)))
    \<and> sorted_wrt (\<lambda>a b. snd b \<le> snd a) (top_relevant L (memories s) query limit)
    \<and> (\<exists>rest.
          mset (map fst (top_relevant L (memories s) query limit)) + mset (map fst rest)
            = mset (filter (\<lambda>x. set (extract_keywords L query) \<inter> set (m_keywords x) \<noteq> {})
                      (memories s))
          \<and> (\<forall>d \<in> set rest.
                snd d =
                  float_add L
                    (float_mul L
                       (int_truediv L
                          (int (card (set (extract_keywords L query) \<inter> set (m_keywords (fst d)))))
                          (int (card (set (extract_keywords L query) \<union> set (m_keywords (fst d))))))
                       (3152519739159347 / 4503599627370496))
                    (float_mul L (m_importance (fst d)) (5404319552844595 / 18014398509481984)))
          \<and> (\<forall>r \<in> set (top_relevant L (memories s) query limit). \<forall>d \<in> set rest.
                snd d \<le> snd r))"
proof -
  let ?top = "top_relevant L (memories s) query limit"
  let ?q = "extract_keywords L query"
  have items: "\<forall>item \<in> set ?top.
          fst item \<in> set (memories s)
          \<and> set ?q \<inter> set (m_keywords (fst item)) \<noteq> {}
          \<and> snd item =
              float_add L
                (float_mul L
                   (int_truediv L
                      (int (card (set ?q \<inter> set (m_keywords (fst item)))))
                      (int (card (set ?q \<union> set (m_keywords (fst item))))))
                   (3152519739159347 / 4503599627370496))
                (float_mul L (m_importance (fst item)) (5404319552844595 / 18014398509481984))"
    using top_relevant_subset [OF assms(1), of L "memories s" query] score_memories_item
    by blast
  then have "\<forall>item \<in> set ?top. iso_to_mdhm L (m_timestamp (fst item)) \<noteq> None"
    using assms(2) by blast
  then have fmt: "format_memories L ?top =
           Inr (map (\<lambda>item. format_memory (the (iso_to_mdhm L (m_timestamp (fst item))))
                               (fst item)) ?top)"
    by (rule format_memories_total)
  have empty: "memories s = [] \<Longrightarrow> ?top = []"
    using assms(1) by (simp add: top_relevant_def score_memories_def sort_desc_def py_prefix_def)
  have res: "get_relevant_memories L s query limit
           = Inr (map (\<lambda>item. format_memory (the (iso_to_mdhm L (m_timestamp (fst item))))
                                 (fst item)) ?top)"
    using fmt empty by (simp add: get_relevant_memories_def)
  have len_eq: "length ?top
        = min (nat limit)
            (length (filter (\<lambda>x. set ?q \<inter> set (m_keywords x) \<noteq> {}) (memories s)))"
    using top_relevant_length [OF assms(1)] .
  then have len: "int (length ?top) \<le> limit"
    using assms(1) by linarith
  obtain rest where rest:
      "mset (map fst ?top) + mset (map fst rest)
         = mset (filter (\<lambda>x. set ?q \<inter> set (m_keywords x) \<noteq> {}) (memories s))"
      "set rest \<subseteq> set (score_memories L ?q (memories s))"
      "\<forall>r \<in> set ?top. \<forall>d \<in> set rest. snd d \<le> snd r"
    using top_relevant_rest [OF assms(1), of L "memories s" query] by blast
  have rest_scores: "\<forall>d \<in> set rest.
                snd d =
                  float_add L
                    (float_mul L
                       (int_truediv L
                          (int (card (set ?q \<inter> set (m_keywords (fst d)))))
                          (int (card (set ?q \<union> set (m_keywords (fst d))))))
                       (3152519739159347 / 4503599627370496))
                    (float_mul L (m_importance (fst d)) (5404319552844595 / 18014398509481984))"
    using rest(2) score_memories_item by blast
  have ex: "\<exists>rest.
          mset (map fst ?top) + mset (map fst rest)
            = mset (filter (\<lambda>x. set ?q \<inter> set (m_keywords x) \<noteq> {}) (memories s))
          \<and> (\<forall>d \<in> set rest.
                snd d =
                  float_add L
                    (float_mul L
                       (int_truediv L
                          (int (card (set ?q \<inter> set (m_keywords (fst d)))))
                          (int (card (set ?q \<union> set (m_keywords (fst d))))))
                       (3152519739159347 / 4503599627370496))
                    (float_mul L (m_importance (fst d)) (5404319552844595 / 18014398509481984)))
          \<and> (\<forall>r \<in> set ?top. \<forall>d \<in> set rest. snd d \<le> snd r)"
    using rest(1) rest(3) rest_scores by blast
  show ?thesis
    using res len len_eq items top_relevant_sorted [OF assms(1)] ex by blast
qed

lemma floor_rat_numeral: "\<lfloor>numeral a / numeral b :: rat\<rfloor> = numeral a div numeral b"
  by (metis floor_divide_of_int_eq of_int_numeral)

lemma floor_rat_one: "\<lfloor>1 / numeral b :: rat\<rfloor> = 1 div numeral b"
  by (metis floor_divide_of_int_eq of_int_numeral of_int_1)

lemmas float_eval =
  round_double_def round_at_def double_exp_def floor_log2_def pow2_def round_half_even_def
  Let_def floor_rat_numeral floor_rat_one

text \<open>
  The constants of the score and the importances of the example store are the doubles
  nearest to 7/10, 3/10, 2/10 and 9/10.
\<close>

lemma double_literals:
  "round_double (7 / 10) = double_0_7"
  "round_double (3 / 10) = double_0_3"
  "round_double (2 / 10) = 3602879701896397 / 18014398509481984"
  "round_double (9 / 10) = 8106479329266893 / 9007199254740992"
  by (simp_all add: float_eval double_0_7_def double_0_3_def)

lemmas retrieval_eval =
  example_store_def new_memory_def extract_keywords_def categorize_memory_def categories_def
  stop_words_def any_in_def basic_lib_def basic_space_def basic_word_def basic_digit_def
  basic_mdhm_def ascii_lower_def u_def Let_def

text \<open>
  The keywords of the query "python" and of the three entries of the example store, and
  the scores of the two entries about Python: the exact values of
  \<open>1/2 * 0.7 + 0.2 * 0.3\<close> and of \<open>1/5 * 0.7 + 0.9 * 0.3\<close> are both 41/100; in floats
  the first is \<open>0.41\<close> and the second \<open>0.41000000000000003\<close>.
\<close>

lemma example_keywords:
  "extract_keywords basic_lib (u ''python'') = [u ''python'']"
  "map m_keywords (memories example_store) =
     [[u ''python'', u ''tips''],
      [u ''python'', u ''code'', u ''review'', u ''notes'', u ''today''],
      [u ''weather'', u ''today'', u ''sunny'']]"
  by (simp_all add: retrieval_eval)

lemma example_scores:
  "float_add basic_lib (float_mul basic_lib (int_truediv basic_lib 1 2) double_0_7)
     (float_mul basic_lib (3602879701896397 / 18014398509481984) double_0_3)
   = 7385903388887613 / 18014398509481984"
  "float_add basic_lib (float_mul basic_lib (int_truediv basic_lib 1 5) double_0_7)
     (float_mul basic_lib (8106479329266893 / 9007199254740992) double_0_3)
   = 3692951694443807 / 9007199254740992"
  by (simp_all add: float_eval basic_lib_def double_0_7_def double_0_3_def)

lemma example_ranking:
  assumes "extract_keywords basic_lib q = [u ''python'']"
    and "m_keywords a = [u ''python'', u ''tips'']"
    and "m_importance a = 3602879701896397 / 18014398509481984"
    and "m_keywords b = [u ''python'', u ''code'', u ''review'', u ''notes'', u ''today'']"
    and "m_importance b = 8106479329266893 / 9007199254740992"
    and "m_keywords w = [u ''weather'', u ''today'', u ''sunny'']"
  shows "top_relevant basic_lib [a, b, w] q 5 =
           [(b, 3692951694443807 / 9007199254740992), (a, 7385903388887613 / 18014398509481984)]"
proof -
  have ka: "keyword_overlap [u ''python''] (m_keywords a) = 1"
      "keyword_union [u ''python''] (m_keywords a) = 2"
    unfolding assms by (simp_all add: keyword_overlap_def keyword_union_def u_def)
  have kb: "keyword_overlap [u ''python''] (m_keywords b) = 1"
      "keyword_union [u ''python''] (m_keywords b) = 5"
    unfolding assms by (simp_all add: keyword_overlap_def keyword_union_def u_def)
  have kw: "keyword_overlap [u ''python''] (m_keywords w) = 0"
    unfolding assms by (simp add: keyword_overlap_def u_def)
  have sa: "relevance_score basic_lib [u ''python''] a = 7385903388887613 / 18014398509481984"
    unfolding relevance_score_def ka assms(3) using example_scores(1) by simp
  have sb: "relevance_score basic_lib [u ''python''] b = 3692951694443807 / 9007199254740992"
    unfolding relevance_score_def kb assms(5) using example_scores(2) by simp
  have scored: "score_memories basic_lib [u ''python''] [a, b, w] =
                  [(a, 7385903388887613 / 18014398509481984),
                   (b, 3692951694443807 / 9007199254740992)]"
    by (simp add: score_memories_def ka kb kw sa sb)
  show ?thesis
    unfolding top_relevant_def assms(1) scored
    by (simp add: py_prefix_def sort_desc_def)
qed

text \<open>
  The theorem on the example store, for the query "python" and the limit 5: the entry
  about the weather, the most important one, is not returned; the other two are, the
  one written at 09:05 first, because its score \<open>0.41000000000000003\<close> is greater
  than the score \<open>0.41\<close> of the one written at 09:00.
\<close>

theorem get_relevant_memories_ranked_witness:
  "(0 :: int) \<le> 5
   \<and> list_all (\<lambda>x. iso_to_mdhm basic_lib (m_timestamp x) \<noteq> None) (memories example_store)
   \<and> get_relevant_memories basic_lib example_store (u ''python'') 5 =
       Inr [u ''[06-11 09:05] '' @ [0x7528, 0x6236] @ u '': python code review notes today...'',
            u ''[06-11 09:00] '' @ [0x7528, 0x6236] @ u '': python tips...'']
   \<and> map snd (top_relevant basic_lib (memories example_store) (u ''python'') 5) =
       [3692951694443807 / 9007199254740992, 7385903388887613 / 18014398509481984]"
proof -
  let ?a = "new_memory basic_lib (u ''2024-06-11T09:00:00.000001'') (u ''python tips'') (u ''k'')
              (3602879701896397 / 18014398509481984)"
  let ?b = "new_memory basic_lib (u ''2024-06-11T09:05:00.000001'')
              (u ''python code review notes today'') (u ''k'')
              (8106479329266893 / 9007199254740992)"
  let ?w = "new_memory basic_lib (u ''2024-06-11T09:10:00.000001'') (u ''weather today'')
              (u ''sunny'') 1"
  have h1: "(0 :: int) \<le> 5"
    by simp
  have h2: "\<forall>x \<in> set (memories example_store). iso_to_mdhm basic_lib (m_timestamp x) \<noteq> None"
    by (simp add: retrieval_eval)
  have ms: "memories example_store = [?a, ?b, ?w]"
    by (simp add: example_store_def)
  have top: "top_relevant basic_lib (memories example_store) (u ''python'') 5 =
               [(?b, 3692951694443807 / 9007199254740992),
                (?a, 7385903388887613 / 18014398509481984)]"
    unfolding ms
  proof (rule example_ranking)
    show "extract_keywords basic_lib (u ''python'') = [u ''python'']"
      by (simp add: retrieval_eval)
    show "m_keywords ?a = [u ''python'', u ''tips'']"
      by (simp add: retrieval_eval)
    show "m_importance ?a = 3602879701896397 / 18014398509481984"
      by (simp add: new_memory_def)
    show "m_keywords ?b = [u ''python'', u ''code'', u ''review'', u ''notes'', u ''today'']"
      by (simp add: retrieval_eval)
    show "m_importance ?b = 8106479329266893 / 9007199254740992"
      by (simp add: new_memory_def)
    show "m_keywords ?w = [u ''weather'', u ''today'', u ''sunny'']"
      by (simp add: retrieval_eval)
  qed
  have "get_relevant_memories basic_lib example_store (u ''python'') 5
          = Inr (map (\<lambda>item. format_memory
                         (the (iso_to_mdhm basic_lib (m_timestamp (fst item)))) (fst item))
                   (top_relevant basic_lib (memories example_store) (u ''python'') 5))"
    using get_relevant_memories_ranked [OF h1 h2, of "u ''python''"] by blast
  also have "\<dots> = Inr [u ''[06-11 09:05] '' @ [0x7528, 0x6236]
                        @ u '': python code review notes today...'',
            u ''[06-11 09:00] '' @ [0x7528, 0x6236] @ u '': python tips...'']"
    unfolding top
    by (simp add: format_memory_def new_memory_def basic_lib_def basic_mdhm_def basic_digit_def
        u_def)
  finally have res: "get_relevant_memories basic_lib example_store (u ''python'') 5 =
       Inr [u ''[06-11 09:05] '' @ [0x7528, 0x6236] @ u '': python code review notes today...'',
            u ''[06-11 09:00] '' @ [0x7528, 0x6236] @ u '': python tips...'']" .
  have scores: "map snd (top_relevant basic_lib (memories example_store) (u ''python'') 5) =
       [3692951694443807 / 9007199254740992, 7385903388887613 / 18014398509481984]"
    unfolding top by simp
  have h2': "list_all (\<lambda>x. iso_to_mdhm basic_lib (m_timestamp x) \<noteq> None)
               (memories example_store)"
    using h2 unfolding list_all_iff .
  show ?thesis
    using h1 h2' res scores by (intro conjI)
qed

end
